theory Spec2Isabelle
  imports Main "HOL-Library.AList"
begin

section \<open>Values, dictionaries and exceptions\<close>

text \<open>
  Python dictionaries (MongoDB documents, JSON bodies, the session, JWT payloads) are
  association lists from field names to values. A signed token is a string in the
  source; here a string that is a JWS compact serialisation is kept in parsed form
  (\<open>BJws payload signature\<close>), every other string is \<open>BStr\<close>. The HS256 signature is
  symbolic: the key and the payload it was computed over. Python's \<open>None\<close> is \<open>BNull\<close>.
  Points in time are whole seconds.
\<close>

datatype bson =
    BNull
  | BStr string
  | BInt int
  | BOid string
  | BDoc "(string \<times> bson) list"
  | BJws "(string \<times> bson) list" signature
and signature = HS256 string "(string \<times> bson) list"

type_synonym document = "(string \<times> bson) list"

text \<open>\<open>d.get(k, default)\<close> and \<open>d.get(k)\<close>.\<close>

definition get_default :: "document \<Rightarrow> string \<Rightarrow> bson \<Rightarrow> bson" where
  "get_default d k dflt = (case map_of d k of None \<Rightarrow> dflt | Some v \<Rightarrow> v)"

definition get :: "document \<Rightarrow> string \<Rightarrow> bson" where
  "get d k = get_default d k BNull"

text \<open>Python truthiness, as used by \<open>if not x\<close>.\<close>

fun truthy :: "bson \<Rightarrow> bool" where
  "truthy BNull = False"
| "truthy (BStr s) = (s \<noteq> [])"
| "truthy (BInt n) = (n \<noteq> 0)"
| "truthy (BOid h) = True"
| "truthy (BDoc d) = (d \<noteq> [])"
| "truthy (BJws p s) = True"

text \<open>An optional string parameter (\<open>Optional[str] = None\<close>) as a value.\<close>

fun opt :: "string option \<Rightarrow> bson" where
  "opt None = BNull"
| "opt (Some s) = BStr s"

text \<open>
  Exceptions: FastAPI's \<open>HTTPException(status_code, detail)\<close>, httpx's
  \<open>HTTPStatusError\<close> (with the response text) and any other Python exception (with
  its message). \<open>str_exc\<close> is \<open>str(e)\<close>; for an \<open>HTTPException\<close> Starlette prints
  the status code, a colon and the detail.
\<close>

datatype exn =
    HTTPException nat string
  | HTTPStatusError string
  | PyError string

fun digit_char :: "nat \<Rightarrow> char" where
  "digit_char n = (''0123456789'' ! (n mod 10))"

fun str_nat :: "nat \<Rightarrow> string" where
  "str_nat n = (if n < 10 then [digit_char n] else str_nat (n div 10) @ [digit_char n])"

definition str_int :: "int \<Rightarrow> string" where
  "str_int i = (if i < 0 then CHR ''-'' # str_nat (nat (- i)) else str_nat (nat i))"

fun str_exc :: "exn \<Rightarrow> string" where
  "str_exc (HTTPException c d) = str_nat c @ '': '' @ d"
| "str_exc (HTTPStatusError t) = t"
| "str_exc (PyError m) = m"

text \<open>The status the framework answers with when a handler raises.\<close>

fun status_of :: "exn \<Rightarrow> nat" where
  "status_of (HTTPException c d) = c"
| "status_of (HTTPStatusError t) = 500"
| "status_of (PyError m) = 500"

section \<open>The document store\<close>

text \<open>
  A collection is the list of its documents in natural order. A query document matches
  when every listed field has the listed value; a \<open>null\<close> in the query also matches
  a missing field. \<open>find_one\<close> returns the first match, \<open>update_one\<close> rewrites the
  first match, \<open>insert_one\<close> appends the document under the identifier the driver
  generated for it.
\<close>

definition matches :: "document \<Rightarrow> document \<Rightarrow> bool" where
  "matches q d = list_all (\<lambda>kv. get d (fst kv) = snd kv) q"

definition find_one :: "document \<Rightarrow> document list \<Rightarrow> document option" where
  "find_one q coll = find (matches q) coll"

definition find_all :: "document \<Rightarrow> document list \<Rightarrow> document list" where
  "find_all q coll = filter (matches q) coll"

text \<open>\<open>$set\<close> with a dictionary of fields, and \<open>$unset\<close> with a list of field names.\<close>

definition set_fields :: "document \<Rightarrow> document \<Rightarrow> document" where
  "set_fields kvs d = fold (\<lambda>kv. AList.update (fst kv) (snd kv)) kvs d"

definition unset_fields :: "string list \<Rightarrow> document \<Rightarrow> document" where
  "unset_fields ks d = fold AList.delete ks d"

fun update_one :: "document \<Rightarrow> (document \<Rightarrow> document) \<Rightarrow> document list \<Rightarrow> document list" where
  "update_one q upd [] = []"
| "update_one q upd (d # ds) = (if matches q d then upd d # ds else d # update_one q upd ds)"

text \<open>\<open>result.modified_count\<close> of an \<open>update_one\<close>.\<close>

definition modified_count :: "document \<Rightarrow> (document \<Rightarrow> document) \<Rightarrow> document list \<Rightarrow> nat" where
  "modified_count q upd coll =
     (case find_one q coll of None \<Rightarrow> 0 | Some d \<Rightarrow> if upd d = d then 0 else 1)"

definition insert_one :: "string \<Rightarrow> document \<Rightarrow> document list \<Rightarrow> document list" where
  "insert_one new_id d coll = coll @ [(''_id'', BOid new_id) # d]"

section \<open>Configuration and password hashing (auth_utils.py)\<close>

text \<open>
  The process-wide settings: the signing key of \<open>config.py\<close>, the salt read from the
  environment, and two primitives of the runtime as functions: SHA-256 (as a hex digest)
  of a string, and Python's \<open>int\<close> on a string (\<open>None\<close> where it raises
  \<open>ValueError\<close>).
\<close>

record config =
  SECRET_KEY :: string
  PASSWORD_SALT :: string
  sha256_hexdigest :: "string \<Rightarrow> string"
  int_of_str :: "string \<Rightarrow> int option"

definition hash_password :: "config \<Rightarrow> string \<Rightarrow> string" where
  "hash_password cfg password = sha256_hexdigest cfg (password @ PASSWORD_SALT cfg)"

text \<open>\<open>generate_temp_password\<close>: \<open>r\<close> is what \<open>random.randint(1000, 9999)\<close> returned.\<close>

definition generate_temp_password :: "int \<Rightarrow> string" where
  "generate_temp_password r = str_int r"

section \<open>Token service (auth_utils.py)\<close>

text \<open>
  PyJWT, as the source calls it: \<open>jwt.encode(payload, key, "HS256")\<close> and
  \<open>jwt.decode(token, key, algorithms=["HS256"])\<close> with the default options and no
  audience or issuer. \<open>jwt_encode\<close> signs the payload with the key.
  \<open>jwt_decode\<close> first checks the signature and then, in this order, the registered
  claims that the payload carries:
  \<^item> \<open>iat\<close> must convert to an integer and must not lie after the current time;
  \<^item> \<open>nbf\<close> likewise;
  \<^item> \<open>exp\<close> must convert to an integer, and a token whose \<open>exp\<close> is not after
    the current time is expired;
  \<^item> \<open>aud\<close>, as no audience is given, must be absent or empty.

  The conversion is Python's \<open>int(x)\<close>: it raises \<open>ValueError\<close> on a string that
  is no numeral, which the library reports as an \<open>InvalidTokenError\<close>, and
  \<open>TypeError\<close> on \<open>None\<close> or a dictionary, which the library does not catch.
  Every failure of the library other than expiry is an \<open>InvalidTokenError\<close> (the source
  catches that class after \<open>ExpiredSignatureError\<close>). A payload is a JSON object: no
  \<open>BOid\<close> occurs in it.
\<close>

datatype int_result = IntValue int | RaisesValueError | RaisesTypeError

fun py_int :: "(string \<Rightarrow> int option) \<Rightarrow> bson \<Rightarrow> int_result" where
  "py_int parse (BInt i) = IntValue i"
| "py_int parse (BStr s) = (case parse s of None \<Rightarrow> RaisesValueError | Some i \<Rightarrow> IntValue i)"
| "py_int parse (BJws p sg) = RaisesValueError"
| "py_int parse BNull = RaisesTypeError"
| "py_int parse (BDoc d) = RaisesTypeError"
| "py_int parse (BOid h) = RaisesTypeError"

datatype decode_error = ExpiredSignatureError | InvalidTokenError | IntTypeError

definition validate_iat :: "(string \<Rightarrow> int option) \<Rightarrow> document \<Rightarrow> int \<Rightarrow> decode_error option" where
  "validate_iat parse payload now =
     (case map_of payload ''iat'' of
        None \<Rightarrow> None
      | Some v \<Rightarrow>
          (case py_int parse v of
             IntValue iat \<Rightarrow> if iat > now then Some InvalidTokenError else None
           | RaisesValueError \<Rightarrow> Some InvalidTokenError
           | RaisesTypeError \<Rightarrow> Some IntTypeError))"

definition validate_nbf :: "(string \<Rightarrow> int option) \<Rightarrow> document \<Rightarrow> int \<Rightarrow> decode_error option" where
  "validate_nbf parse payload now =
     (case map_of payload ''nbf'' of
        None \<Rightarrow> None
      | Some v \<Rightarrow>
          (case py_int parse v of
             IntValue nbf \<Rightarrow> if nbf > now then Some InvalidTokenError else None
           | RaisesValueError \<Rightarrow> Some InvalidTokenError
           | RaisesTypeError \<Rightarrow> Some IntTypeError))"

definition validate_exp :: "(string \<Rightarrow> int option) \<Rightarrow> document \<Rightarrow> int \<Rightarrow> decode_error option" where
  "validate_exp parse payload now =
     (case map_of payload ''exp'' of
        None \<Rightarrow> None
      | Some v \<Rightarrow>
          (case py_int parse v of
             IntValue e \<Rightarrow> if e \<le> now then Some ExpiredSignatureError else None
           | RaisesValueError \<Rightarrow> Some InvalidTokenError
           | RaisesTypeError \<Rightarrow> Some IntTypeError))"

definition validate_aud :: "document \<Rightarrow> decode_error option" where
  "validate_aud payload =
     (case map_of payload ''aud'' of
        None \<Rightarrow> None
      | Some v \<Rightarrow> if truthy v then Some InvalidTokenError else None)"

definition validate_claims :: "(string \<Rightarrow> int option) \<Rightarrow> document \<Rightarrow> int \<Rightarrow> decode_error option" where
  "validate_claims parse payload now =
     (case validate_iat parse payload now of
        Some e \<Rightarrow> Some e
      | None \<Rightarrow>
          (case validate_nbf parse payload now of
             Some e \<Rightarrow> Some e
           | None \<Rightarrow>
               (case validate_exp parse payload now of
                  Some e \<Rightarrow> Some e
                | None \<Rightarrow> validate_aud payload)))"

definition jwt_encode :: "document \<Rightarrow> string \<Rightarrow> bson" where
  "jwt_encode payload key = BJws payload (HS256 key payload)"

fun jwt_decode :: "(string \<Rightarrow> int option) \<Rightarrow> bson \<Rightarrow> string \<Rightarrow> int \<Rightarrow> decode_error + document" where
  "jwt_decode parse (BJws payload sg) key now =
     (if sg \<noteq> HS256 key payload then Inl InvalidTokenError
      else (case validate_claims parse payload now of
              Some e \<Rightarrow> Inl e
            | None \<Rightarrow> Inr payload))"
| "jwt_decode parse _ key now = Inl InvalidTokenError"

text \<open>
  \<open>generate_access_token(user_data, expires_delta)\<close>: \<open>expires_delta\<close> is in
  seconds, \<open>None\<close> stands for the default of one day; \<open>now\<close> is
  \<open>datetime.utcnow()\<close>.
\<close>

definition generate_access_token :: "config \<Rightarrow> int \<Rightarrow> document \<Rightarrow> int option \<Rightarrow> bson" where
  "generate_access_token cfg now user_data expires_delta =
     (let to_encode = user_data;
          delta = (case expires_delta of None \<Rightarrow> 86400 | Some d \<Rightarrow> d);
          expire = now + delta;
          to_encode = AList.update ''exp'' (BInt expire) to_encode
      in jwt_encode to_encode (SECRET_KEY cfg))"

text \<open>
  \<open>verify_access_token\<close> raises \<open>ValueError\<close> with one of two messages for the two
  classes it catches; the \<open>TypeError\<close> of the conversion passes through it.
\<close>

datatype verify_error = ValueError string | TypeError

definition verify_access_token :: "config \<Rightarrow> int \<Rightarrow> bson \<Rightarrow> verify_error + document" where
  "verify_access_token cfg now token =
     (case jwt_decode (int_of_str cfg) token (SECRET_KEY cfg) now of
        Inr payload \<Rightarrow> Inr payload
      | Inl ExpiredSignatureError \<Rightarrow> Inl (ValueError ''Token has expired'')
      | Inl InvalidTokenError \<Rightarrow> Inl (ValueError ''Invalid token'')
      | Inl IntTypeError \<Rightarrow> Inl TypeError)"

text \<open>The requester, as \<open>get_current_user\<close> returns it from a verified token.\<close>

record current_user =
  cu_id :: bson
  cu_email :: bson

text \<open>
  \<open>get_current_user\<close>: the header is absent, or a scheme prefix and the rest; the
  token is the part after \<open>Bearer\<close> and a space.
\<close>

datatype authorization = Bearer bson | OtherScheme string

definition get_current_user :: "config \<Rightarrow> int \<Rightarrow> authorization option \<Rightarrow> exn + current_user" where
  "get_current_user cfg now hdr =
     (case hdr of
        None \<Rightarrow> Inl (HTTPException 401 ''Missing or invalid access token'')
      | Some (OtherScheme s) \<Rightarrow> Inl (HTTPException 401 ''Missing or invalid access token'')
      | Some (Bearer token) \<Rightarrow>
          (case verify_access_token cfg now token of
             Inr token_data \<Rightarrow>
               Inr \<lparr>cu_id = get token_data ''sub'', cu_email = get token_data ''email''\<rparr>
           | Inl (ValueError m) \<Rightarrow> Inl (HTTPException 401 m)
           | Inl TypeError \<Rightarrow> Inl (PyError ''TypeError'')))"

section \<open>Request models (models.py)\<close>

record UserCreate =
  uc_email :: "string option"
  uc_password :: "string option"
  uc_first_name :: "string option"
  uc_last_name :: "string option"
  uc_mobile_number :: "string option"

record LoginRequest =
  login_email :: string
  login_password :: string

record ResetPasswordRequest =
  otp :: string
  new_password :: string
  confirm_password :: string

section \<open>Object identifiers\<close>

text \<open>
  \<open>ObjectId(s)\<close> takes a string of 24 characters that \<open>bytes.fromhex\<close> accepts:
  pairs of hexadecimal digits, with ASCII whitespace allowed before each pair and at the
  end. The identifier is the bytes read, kept as their lower-case hexadecimal digits,
  which is also what \<open>str\<close> prints; identifiers compare by value.
  \<open>ObjectId.is_valid\<close> tells whether \<open>ObjectId(s)\<close> returns. \<open>py_str\<close> is
  \<open>str(x)\<close> on the values the handlers apply it to.
\<close>

definition is_hex :: "char \<Rightarrow> bool" where
  "is_hex c = (c \<in> set ''0123456789abcdefABCDEF'')"

definition lower_hex :: "char \<Rightarrow> char" where
  "lower_hex c = (case map_of (zip ''ABCDEF'' ''abcdef'') c of None \<Rightarrow> c | Some l \<Rightarrow> l)"

definition is_space :: "char \<Rightarrow> bool" where
  "is_space c = (c \<in> set [CHR '' '', CHR 0x09, CHR 0x0A, CHR 0x0B, CHR 0x0C, CHR 0x0D])"

fun fromhex :: "string \<Rightarrow> string option" where
  "fromhex [] = Some []"
| "fromhex [c] = (if is_space c then Some [] else None)"
| "fromhex (c # d # cs) =
     (if is_space c then fromhex (d # cs)
      else if is_hex c \<and> is_hex d
           then map_option (\<lambda>h. lower_hex c # lower_hex d # h) (fromhex cs)
           else None)"

fun ObjectId :: "bson \<Rightarrow> exn + bson" where
  "ObjectId (BStr s) =
     (if length s = 24
      then (case fromhex s of None \<Rightarrow> Inl (PyError ''InvalidId'') | Some h \<Rightarrow> Inr (BOid h))
      else Inl (PyError ''InvalidId''))"
| "ObjectId (BOid h) = Inr (BOid h)"
| "ObjectId _ = Inl (PyError ''TypeError'')"

definition is_valid :: "string \<Rightarrow> bool" where
  "is_valid s = (case ObjectId (BStr s) of Inl e \<Rightarrow> False | Inr oid \<Rightarrow> True)"

fun py_str :: "bson \<Rightarrow> bson" where
  "py_str (BOid h) = BStr h"
| "py_str (BStr s) = BStr s"
| "py_str (BJws p sg) = BJws p sg"
| "py_str (BInt i) = BStr (str_int i)"
| "py_str BNull = BStr ''None''"
| "py_str (BDoc d) = BStr ''{...}''"

section \<open>Local credentials and password reset (auth_routes.py)\<close>

text \<open>
  Each handler takes the users collection and returns what it raises or answers,
  together with the collection afterwards. \<open>now\<close> is the clock reading of the request.
\<close>

definition login_user :: "config \<Rightarrow> int \<Rightarrow> LoginRequest \<Rightarrow> document list \<Rightarrow> exn + document" where
  "login_user cfg now login_data users =
     (case find_one [(''email'', BStr (login_email login_data))] users of
        None \<Rightarrow> Inl (HTTPException 400 ''Invalid email or password'')
      | Some existing_user \<Rightarrow>
          (let hashed_password = hash_password cfg (login_password login_data) in
           case map_of existing_user ''password'' of
             None \<Rightarrow> Inl (PyError ''KeyError'')
           | Some stored \<Rightarrow>
               if BStr hashed_password \<noteq> stored
               then Inl (HTTPException 400 ''Invalid email or password'')
               else
                 (let access_token = generate_access_token cfg now
                        [(''sub'', py_str (get existing_user ''_id'')),
                         (''email'', get existing_user ''email'')] None
                  in Inr [(''access_token'', access_token),
                          (''user'', BDoc
                             [(''id'', py_str (get existing_user ''_id'')),
                              (''first_name'', get existing_user ''first_name''),
                              (''last_name'', get existing_user ''last_name''),
                              (''email'', get existing_user ''email'')])])))"

text \<open>
  \<open>forgot_password\<close>: \<open>r\<close> is the number \<open>random.randint\<close> returned,
  \<open>delivered\<close> tells whether \<open>send_email\<close> returned (it raises when the mail
  server refuses). The third component is the mail handed to the server: recipient and
  plaintext code.
\<close>

definition forgot_password ::
  "config \<Rightarrow> int \<Rightarrow> bool \<Rightarrow> string \<Rightarrow> document list
     \<Rightarrow> (exn + document) \<times> document list \<times> (string \<times> string) list" where
  "forgot_password cfg r delivered email users =
     (case find_one [(''email'', BStr email)] users of
        None \<Rightarrow> (Inl (HTTPException 400 ''Email not found''), users, [])
      | Some existing_user \<Rightarrow>
          (let temp_password = generate_temp_password r;
               hashed_temp_password = hash_password cfg temp_password;
               users = update_one [(''email'', BStr email)]
                         (set_fields [(''temp_password'', BStr hashed_temp_password)]) users
           in if delivered
              then (Inr [(''message'', BStr ''Temporary password sent to your email'')],
                    users, [(email, temp_password)])
              else (Inl (PyError ''SMTPException''), users, [])))"

definition reset_password ::
  "config \<Rightarrow> ResetPasswordRequest \<Rightarrow> document list \<Rightarrow> (exn + document) \<times> document list" where
  "reset_password cfg reset_data users =
     (if new_password reset_data \<noteq> confirm_password reset_data
      then (Inl (HTTPException 400 ''Passwords do not match''), users)
      else
        (let hashed_otp = hash_password cfg (otp reset_data) in
         case find_one [(''temp_password'', BStr hashed_otp)] users of
           None \<Rightarrow> (Inl (HTTPException 400 ''Invalid OTP''), users)
         | Some existing_user \<Rightarrow>
             (let hashed_new_password = hash_password cfg (new_password reset_data);
                  users = update_one [(''_id'', get existing_user ''_id'')]
                            (\<lambda>d. unset_fields [''temp_password'']
                                   (set_fields [(''password'', BStr hashed_new_password)] d))
                            users
              in (Inr [(''message'', BStr ''Password reset successfully'')], users))))"

text \<open>
  The time-limited one-time code of auth_utils.py (\<open>generate_otp\<close>,
  \<open>verify_otp\<close>); no route calls these two.
\<close>

definition generate_otp :: "config \<Rightarrow> int \<Rightarrow> int \<Rightarrow> string \<Rightarrow> document list \<Rightarrow> string \<times> document list" where
  "generate_otp cfg now r email users =
     (let otp_code = generate_temp_password r;
          hashed_otp = hash_password cfg otp_code;
          expiration = now + 15 * 60;
          users = update_one [(''email'', BStr email)]
                    (set_fields [(''temp_password'', BStr hashed_otp),
                                 (''otp_expiration'', BInt expiration)]) users
      in (otp_code, users))"

definition verify_otp :: "config \<Rightarrow> int \<Rightarrow> string \<Rightarrow> string \<Rightarrow> document list \<Rightarrow> bool" where
  "verify_otp cfg now email otp_code users =
     (case find_one [(''email'', BStr email)] users of
        None \<Rightarrow> False
      | Some user \<Rightarrow>
          (case get user ''otp_expiration'' of
             BInt expiration \<Rightarrow>
               if \<not> truthy (get user ''temp_password'') \<or> now > expiration then False
               else BStr (hash_password cfg otp_code) = get user ''temp_password''
           | _ \<Rightarrow> False))"

text \<open>
  \<open>update_profile\<close>: the body of the \<open>try\<close> block, then the handler with its
  \<open>except Exception\<close> clause around it.
\<close>

definition update_fields_of :: "UserCreate \<Rightarrow> document" where
  "update_fields_of update_data =
     (case uc_first_name update_data of None \<Rightarrow> [] | Some v \<Rightarrow> [(''first_name'', BStr v)])
   @ (case uc_last_name update_data of None \<Rightarrow> [] | Some v \<Rightarrow> [(''last_name'', BStr v)])
   @ (case uc_email update_data of None \<Rightarrow> [] | Some v \<Rightarrow> [(''email'', BStr v)])
   @ (case uc_mobile_number update_data of None \<Rightarrow> [] | Some v \<Rightarrow> [(''mobile_number'', BStr v)])"

definition update_profile_try ::
  "UserCreate \<Rightarrow> current_user \<Rightarrow> document list \<Rightarrow> (exn + document) \<times> document list" where
  "update_profile_try update_data cu users =
     (let user_id = cu_id cu;
          update_fields = update_fields_of update_data
      in if update_fields = []
         then (Inl (HTTPException 400 ''No update fields provided''), users)
         else
           (case ObjectId user_id of
              Inl e \<Rightarrow> (Inl e, users)
            | Inr oid \<Rightarrow>
                (let modified = modified_count [(''_id'', oid)] (set_fields update_fields) users;
                     users = update_one [(''_id'', oid)] (set_fields update_fields) users
                 in if modified = 0
                    then (Inl (HTTPException 400 ''No changes made to profile''), users)
                    else
                      (case find_one [(''_id'', oid)] users of
                         None \<Rightarrow> (Inl (PyError ''TypeError''), users)
                       | Some updated_user \<Rightarrow>
                           (Inr [(''message'', BStr ''User profile details Updated Successfully''),
                                 (''user'', BDoc
                                    [(''id'', py_str (get updated_user ''_id'')),
                                     (''first_name'', get updated_user ''first_name''),
                                     (''last_name'', get updated_user ''last_name''),
                                     (''email'', get updated_user ''email''),
                                     (''mobile_number'', get updated_user ''mobile_number'')])],
                            users)))))"

definition update_profile ::
  "UserCreate \<Rightarrow> current_user \<Rightarrow> document list \<Rightarrow> (exn + document) \<times> document list" where
  "update_profile update_data cu users =
     (case update_profile_try update_data cu users of
        (Inl e, users') \<Rightarrow>
          (Inl (HTTPException 500 (''An error occurred during profile update: '' @ str_exc e)),
           users')
      | (Inr r, users') \<Rightarrow> (Inr r, users'))"

section \<open>Concrete settings for the instances\<close>

text \<open>A configuration with a stand-in digest and a stand-in for \<open>int\<close> on strings, used
  where a theorem is instantiated.\<close>

definition test_config :: config where
  "test_config = \<lparr>SECRET_KEY = ''k'', PASSWORD_SALT = ''default_salt'', sha256_hexdigest = rev,
                   int_of_str = (\<lambda>s. None)\<rparr>"

text \<open>Stores used in the instances: one user; two users holding the same pending code;
  one pending code, before and after it is used.\<close>

definition users_one :: "document list" where
  "users_one = [[(''_id'', BOid ''0123456789abcdef01234567''), (''email'', BStr ''a@x.com''),
                 (''password'', BStr ''old'')]]"

definition users_two :: "document list" where
  "users_two =
     [[(''_id'', BOid ''0123456789abcdef01234567''), (''email'', BStr ''a@x.com''),
       (''password'', BStr ''old''), (''temp_password'', BStr ''tlas_tluafed4321'')],
      [(''_id'', BOid ''0123456789abcdef01234568''), (''email'', BStr ''b@x.com''),
       (''password'', BStr ''old''), (''temp_password'', BStr ''tlas_tluafed4321'')]]"

definition users_pending :: "document list" where
  "users_pending =
     [[(''_id'', BOid ''0123456789abcdef01234567''), (''email'', BStr ''a@x.com''),
       (''password'', BStr ''old''), (''temp_password'', BStr ''tlas_tluafed4321'')],
      [(''_id'', BOid ''0123456789abcdef01234568''), (''email'', BStr ''b@x.com''),
       (''password'', BStr ''old'')]]"

definition users_reset :: "document list" where
  "users_reset =
     [[(''_id'', BOid ''0123456789abcdef01234567''), (''email'', BStr ''a@x.com''),
       (''password'', BStr ''tlas_tluafedn'')],
      [(''_id'', BOid ''0123456789abcdef01234568''), (''email'', BStr ''b@x.com''),
       (''password'', BStr ''old'')]]"

section \<open>Documents (document_routes.py, models.py)\<close>

text \<open>
  \<open>DocumentResponse.from_mongo\<close>: the stored \<open>_id\<close> becomes the string field
  \<open>id\<close>; every other field is passed on, and the stored record is taken to pass the
  validation of the response model. A cursor refuses a negative \<open>skip\<close>, and
  \<open>to_list\<close> a negative length.
\<close>

definition from_mongo :: "document \<Rightarrow> document" where
  "from_mongo document =
     (let doc_dict = document
      in case map_of doc_dict ''_id'' of
           None \<Rightarrow> doc_dict
         | Some v \<Rightarrow> AList.update ''id'' (py_str v) (AList.delete ''_id'' doc_dict))"

definition read_documents ::
  "int \<Rightarrow> int \<Rightarrow> current_user \<Rightarrow> document list \<Rightarrow> exn + document list" where
  "read_documents skip limit cu documents =
     (if skip < 0 \<or> limit < 0 then Inl (PyError ''ValueError'')
      else
        (let found = take (nat limit) (drop (nat skip)
                       (find_all [(''user_id'', cu_id cu)] documents))
         in Inr (map from_mongo found)))"

definition read_document :: "string \<Rightarrow> current_user \<Rightarrow> document list \<Rightarrow> exn + document" where
  "read_document document_id cu documents =
     (if \<not> is_valid document_id then Inl (HTTPException 400 ''Invalid document ID format'')
      else
        (case ObjectId (BStr document_id) of
           Inl e \<Rightarrow> Inl e
         | Inr oid \<Rightarrow>
             (case find_one [(''_id'', oid), (''user_id'', cu_id cu)] documents of
                None \<Rightarrow> Inl (HTTPException 404 ''Document not found or unauthorized'')
              | Some document \<Rightarrow> Inr (from_mongo document))))"

text \<open>A document store with one document of each of two owners.\<close>

definition documents_two :: "document list" where
  "documents_two =
     [[(''_id'', BOid ''aaaaaaaaaaaaaaaaaaaaaaaa''), (''user_id'', BStr ''u1''),
       (''document_name'', BStr ''passport''), (''scan_type'', BStr ''id'')],
      [(''_id'', BOid ''bbbbbbbbbbbbbbbbbbbbbbbb''), (''user_id'', BStr ''u2''),
       (''document_name'', BStr ''novel''), (''scan_type'', BStr ''book'')]]"

section \<open>OAuth login (auth_routes.py, main.py)\<close>

text \<open>
  The remote side of a provider: its client settings from \<open>config.py\<close>, and its
  token and user-info endpoints as functions of the authorization code and of the
  access token sent. A response has a status, a text and, when the text is a JSON
  object, that object. \<open>raise_for_status\<close> raises on a status outside 200 to 299.
\<close>

record http_response =
  status_code :: nat
  response_text :: string
  json_body :: "document option"

record provider =
  client_id :: string
  redirect_uri :: string
  scope :: string
  token_endpoint :: "string \<Rightarrow> http_response"
  userinfo_endpoint :: "bson \<Rightarrow> http_response"

definition raise_for_status :: "http_response \<Rightarrow> exn option" where
  "raise_for_status r =
     (if 200 \<le> status_code r \<and> status_code r < 300 then None
      else Some (HTTPStatusError (response_text r)))"

text \<open>
  What a request works on: the users collection, the session dictionary of the caller's
  cookie, and the record of the session lookups of the state and of the calls to the
  provider made so far.
\<close>

datatype call = SessionGet string | TokenEndpoint string | UserInfoEndpoint bson

record world =
  w_users :: "document list"
  w_session :: document
  w_calls :: "call list"

definition record_call :: "call \<Rightarrow> world \<Rightarrow> world" where
  "record_call c w = w\<lparr>w_calls := w_calls w @ [c]\<rparr>"

text \<open>
  The find-or-create step that each callback runs on the profile's email (lines 248 to
  274, 396 to 426 and 552 to 584): \<open>names\<close> are the name fields and \<open>linkage\<close>
  the provider fields that the callback writes; \<open>new_id\<close> is the identifier the
  driver generates on insertion and \<open>rnd\<close> the number \<open>random.randint\<close> returns.
\<close>

definition upsert ::
  "config \<Rightarrow> string \<Rightarrow> int \<Rightarrow> bson \<Rightarrow> document \<Rightarrow> document \<Rightarrow> document list
     \<Rightarrow> bson \<times> document list" where
  "upsert cfg new_id rnd email names linkage users =
     (case find_one [(''email'', email)] users of
        None \<Rightarrow>
          (let hashed_password = hash_password cfg (str_int rnd);
               user_data = (''email'', email) # names
                             @ (''password'', BStr hashed_password) # linkage
           in (BStr new_id, insert_one new_id user_data users))
      | Some existing_user \<Rightarrow>
          (py_str (get existing_user ''_id''),
           update_one [(''email'', email)] (set_fields (names @ linkage)) users))"

text \<open>The start routes: the state is stored in the session and sent in the redirect.\<close>

definition auth_google :: "provider \<Rightarrow> string \<Rightarrow> world \<Rightarrow> document \<times> world" where
  "auth_google google state w =
     (let w = w\<lparr>w_session := AList.update ''google_oauth_state'' (BStr state) (w_session w)\<rparr>;
          params = [(''response_type'', BStr ''code''),
                    (''client_id'', BStr (client_id google)),
                    (''redirect_uri'', BStr (redirect_uri google)),
                    (''scope'', BStr (scope google)),
                    (''state'', BStr state),
                    (''access_type'', BStr ''offline''),
                    (''prompt'', BStr ''consent'')]
      in (params, w))"

definition auth_linkedin :: "provider \<Rightarrow> string \<Rightarrow> world \<Rightarrow> document \<times> world" where
  "auth_linkedin linkedin state w =
     (let w = w\<lparr>w_session := AList.update ''linkedin_oauth_state'' (BStr state) (w_session w)\<rparr>;
          params = [(''response_type'', BStr ''code''),
                    (''client_id'', BStr (client_id linkedin)),
                    (''redirect_uri'', BStr (redirect_uri linkedin)),
                    (''state'', BStr state),
                    (''scope'', BStr ''openid profile email'')]
      in (params, w))"

definition auth_facebook :: "provider \<Rightarrow> string \<Rightarrow> world \<Rightarrow> document \<times> world" where
  "auth_facebook facebook state w =
     (let w = w\<lparr>w_session := AList.update ''facebook_oauth_state'' (BStr state) (w_session w)\<rparr>;
          params = [(''client_id'', BStr (client_id facebook)),
                    (''redirect_uri'', BStr (redirect_uri facebook)),
                    (''state'', BStr state),
                    (''scope'', BStr ''email,public_profile'')]
      in (params, w))"

definition logout :: "world \<Rightarrow> document \<times> world" where
  "logout w =
     ([(''message'', BStr ''Logged out successfully'')],
      w\<lparr>w_session := fold AList.delete
           [''user'', ''google_oauth_state'', ''linkedin_oauth_state'', ''facebook_oauth_state'']
           (w_session w)\<rparr>)"

text \<open>The Google callback: the \<open>try\<close> block, then the handler around it.\<close>

definition auth_google_callback_try ::
  "config \<Rightarrow> provider \<Rightarrow> int \<Rightarrow> string \<Rightarrow> int \<Rightarrow> string \<Rightarrow> world
     \<Rightarrow> (exn + document) \<times> world" where
  "auth_google_callback_try cfg google now new_id rnd code w =
     (let response = token_endpoint google code;
          w = record_call (TokenEndpoint code) w
      in case json_body response of
           None \<Rightarrow> (Inl (PyError ''JSONDecodeError''), w)
         | Some token_data \<Rightarrow>
             (let access_token = get token_data ''access_token''
              in if \<not> truthy access_token
                 then (Inl (HTTPException 400 ''Failed to retrieve access token''), w)
                 else
                   (let user_info_response = userinfo_endpoint google access_token;
                        w = record_call (UserInfoEndpoint access_token) w
                    in case json_body user_info_response of
                         None \<Rightarrow> (Inl (PyError ''JSONDecodeError''), w)
                       | Some user_info \<Rightarrow>
                           (let email = get user_info ''email'';
                                first_name = get_default user_info ''given_name'' (BStr '''');
                                last_name = get_default user_info ''family_name'' (BStr '''')
                            in if \<not> truthy email
                               then (Inl (HTTPException 400 ''Failed to retrieve user email''), w)
                               else
                                 (let (user_id, users) =
                                        upsert cfg new_id rnd email
                                          [(''first_name'', first_name), (''last_name'', last_name)]
                                          [(''auth_provider'', BStr ''google'')] (w_users w);
                                      access_token = generate_access_token cfg now
                                        [(''sub'', user_id), (''email'', email)] None;
                                      session = AList.update ''user''
                                        (BDoc [(''id'', user_id), (''email'', email),
                                               (''first_name'', first_name),
                                               (''last_name'', last_name),
                                               (''auth_provider'', BStr ''google'')])
                                        (w_session w)
                                  in (Inr [(''access_token'', access_token),
                                           (''user'', BDoc
                                              [(''id'', user_id), (''email'', email),
                                               (''first_name'', first_name),
                                               (''last_name'', last_name)])],
                                      w\<lparr>w_users := users, w_session := session\<rparr>))))))"

definition auth_google_callback ::
  "config \<Rightarrow> provider \<Rightarrow> int \<Rightarrow> string \<Rightarrow> int \<Rightarrow> string \<Rightarrow> string option \<Rightarrow> world
     \<Rightarrow> (exn + document) \<times> world" where
  "auth_google_callback cfg google now new_id rnd code state w =
     (let stored_state = get (w_session w) ''google_oauth_state'';
          w = record_call (SessionGet ''google_oauth_state'') w
      in if \<not> truthy stored_state \<or> stored_state \<noteq> opt state
         then (Inl (HTTPException 400 ''Invalid state parameter''), w)
         else
           (case auth_google_callback_try cfg google now new_id rnd code w of
              (Inl e, w') \<Rightarrow> (Inl (HTTPException 400 (str_exc e)), w')
            | (Inr r, w') \<Rightarrow> (Inr r, w')))"

text \<open>The LinkedIn callback.\<close>

definition linkedin_callback_try ::
  "config \<Rightarrow> provider \<Rightarrow> int \<Rightarrow> string \<Rightarrow> int \<Rightarrow> string \<Rightarrow> world
     \<Rightarrow> (exn + document) \<times> world" where
  "linkedin_callback_try cfg linkedin now new_id rnd code w =
     (let token_response = token_endpoint linkedin code;
          w = record_call (TokenEndpoint code) w
      in case raise_for_status token_response of
           Some e \<Rightarrow> (Inl e, w)
         | None \<Rightarrow>
      (case json_body token_response of
           None \<Rightarrow> (Inl (PyError ''JSONDecodeError''), w)
         | Some token_info \<Rightarrow>
      (case map_of token_info ''access_token'' of
           None \<Rightarrow> (Inl (PyError ''KeyError''), w)
         | Some oauth_access_token \<Rightarrow>
      (let user_response = userinfo_endpoint linkedin oauth_access_token;
           w = record_call (UserInfoEndpoint oauth_access_token) w
       in case raise_for_status user_response of
            Some e \<Rightarrow> (Inl e, w)
          | None \<Rightarrow>
      (case json_body user_response of
           None \<Rightarrow> (Inl (PyError ''JSONDecodeError''), w)
         | Some user_data \<Rightarrow>
      (let user_id = get_default user_data ''sub'' (BStr '''');
           email = get_default user_data ''email'' (BStr '''');
           given_name = get_default user_data ''given_name'' (BStr '''');
           family_name = get_default user_data ''family_name'' (BStr '''')
       in if \<not> truthy email
          then (Inl (HTTPException 400 ''Failed to retrieve user email''), w)
          else
            (let (user_id, users) =
                   upsert cfg new_id rnd email
                     [(''first_name'', given_name), (''last_name'', family_name)]
                     [(''linkedin_id'', user_id), (''auth_provider'', BStr ''linkedin'')]
                     (w_users w);
                 access_token = generate_access_token cfg now
                   [(''sub'', user_id), (''email'', email)] None;
                 session = AList.update ''user''
                   (BDoc [(''id'', user_id), (''email'', email),
                          (''first_name'', given_name), (''last_name'', family_name),
                          (''auth_provider'', BStr ''linkedin'')])
                   (w_session w)
             in (Inr [(''access_token'', access_token),
                      (''user'', BDoc
                         [(''id'', user_id), (''first_name'', given_name),
                          (''last_name'', family_name), (''email'', email)])],
                 w\<lparr>w_users := users, w_session := session\<rparr>))))))))"

definition linkedin_callback ::
  "config \<Rightarrow> provider \<Rightarrow> int \<Rightarrow> string \<Rightarrow> int
     \<Rightarrow> string option \<Rightarrow> string option \<Rightarrow> string option \<Rightarrow> string option \<Rightarrow> world
     \<Rightarrow> (exn + document) \<times> world" where
  "linkedin_callback cfg linkedin now new_id rnd code state error error_description w =
     (case (if truthy (opt error) then error else None) of
        Some err \<Rightarrow>
          (let error_msg = ''LinkedIn OAuth error: '' @ err;
               error_msg = (case (if truthy (opt error_description) then error_description
                                  else None) of
                              Some descr \<Rightarrow> error_msg @ '' - '' @ descr
                            | None \<Rightarrow> error_msg)
           in (Inl (HTTPException 400 error_msg), w))
      | None \<Rightarrow>
          (case (if truthy (opt code) \<and> truthy (opt state) then code else None) of
             None \<Rightarrow> (Inl (HTTPException 400 ''Missing required parameters (code or state)''), w)
           | Some code \<Rightarrow>
               (let stored_state = get (w_session w) ''linkedin_oauth_state'';
                    w = record_call (SessionGet ''linkedin_oauth_state'') w
                in if \<not> truthy stored_state \<or> stored_state \<noteq> opt state
                   then (Inl (HTTPException 400 ''Invalid state parameter''), w)
                   else
                     (case linkedin_callback_try cfg linkedin now new_id rnd code w of
                        (Inl (HTTPStatusError t), w') \<Rightarrow>
                          (Inl (HTTPException 400 (''LinkedIn API error: '' @ t)), w')
                      | (Inl e, w') \<Rightarrow>
                          (Inl (HTTPException 500 (''An error occurred: '' @ str_exc e)), w')
                      | (Inr r, w') \<Rightarrow> (Inr r, w')))))"

text \<open>The Facebook callback. \<open>dict_get\<close> is \<open>.get\<close> on a value that may not be
  a dictionary.\<close>

fun dict_get :: "bson \<Rightarrow> string \<Rightarrow> bson \<Rightarrow> exn + bson" where
  "dict_get (BDoc d) k dflt = Inr (get_default d k dflt)"
| "dict_get _ k dflt = Inl (PyError ''AttributeError'')"

definition facebook_callback_try ::
  "config \<Rightarrow> provider \<Rightarrow> int \<Rightarrow> string \<Rightarrow> int \<Rightarrow> string \<Rightarrow> world
     \<Rightarrow> (exn + document) \<times> world" where
  "facebook_callback_try cfg facebook now new_id rnd code w =
     (let token_response = token_endpoint facebook code;
          w = record_call (TokenEndpoint code) w
      in case raise_for_status token_response of
           Some e \<Rightarrow> (Inl e, w)
         | None \<Rightarrow>
      (case json_body token_response of
           None \<Rightarrow> (Inl (PyError ''JSONDecodeError''), w)
         | Some token_data \<Rightarrow>
      (case map_of token_data ''access_token'' of
           None \<Rightarrow> (Inl (PyError ''KeyError''), w)
         | Some access_token \<Rightarrow>
      (let user_response = userinfo_endpoint facebook access_token;
           w = record_call (UserInfoEndpoint access_token) w
       in case raise_for_status user_response of
            Some e \<Rightarrow> (Inl e, w)
          | None \<Rightarrow>
      (case json_body user_response of
           None \<Rightarrow> (Inl (PyError ''JSONDecodeError''), w)
         | Some user_data \<Rightarrow>
      (let facebook_id = get_default user_data ''id'' (BStr '''');
           email = get_default user_data ''email'' (BStr '''');
           first_name = get_default user_data ''first_name'' (BStr '''');
           last_name = get_default user_data ''last_name'' (BStr '''')
       in case dict_get (get_default user_data ''picture'' (BDoc [])) ''data'' (BDoc []) of
            Inl e \<Rightarrow> (Inl e, w)
          | Inr picture_data \<Rightarrow>
      (case dict_get picture_data ''url'' (BStr '''') of
            Inl e \<Rightarrow> (Inl e, w)
          | Inr profile_picture \<Rightarrow>
          if \<not> truthy email
          then (Inl (HTTPException 400 ''Failed to retrieve user email''), w)
          else
            (let (user_id, users) =
                   upsert cfg new_id rnd email
                     [(''first_name'', first_name), (''last_name'', last_name)]
                     [(''facebook_id'', facebook_id), (''profile_picture'', profile_picture),
                      (''auth_provider'', BStr ''facebook'')]
                     (w_users w);
                 session = AList.update ''user''
                   (BDoc [(''id'', user_id), (''email'', email),
                          (''first_name'', first_name), (''last_name'', last_name),
                          (''profile_picture'', profile_picture),
                          (''auth_provider'', BStr ''facebook'')])
                   (w_session w)
             in (Inr [(''access_token'', access_token),
                      (''user'', BDoc
                         [(''id'', user_id), (''first_name'', first_name),
                          (''last_name'', last_name), (''email'', email),
                          (''profile_picture'', profile_picture)])],
                 w\<lparr>w_users := users, w_session := session\<rparr>)))))))))"

definition facebook_callback ::
  "config \<Rightarrow> provider \<Rightarrow> int \<Rightarrow> string \<Rightarrow> int
     \<Rightarrow> string option \<Rightarrow> string option \<Rightarrow> string option \<Rightarrow> string option \<Rightarrow> world
     \<Rightarrow> (exn + document) \<times> world" where
  "facebook_callback cfg facebook now new_id rnd code state error error_description w =
     (case (if truthy (opt error) then error else None) of
        Some err \<Rightarrow>
          (let error_msg = ''Facebook OAuth error: '' @ err;
               error_msg = (case (if truthy (opt error_description) then error_description
                                  else None) of
                              Some descr \<Rightarrow> error_msg @ '' - '' @ descr
                            | None \<Rightarrow> error_msg)
           in (Inl (HTTPException 400 error_msg), w))
      | None \<Rightarrow>
          (case (if truthy (opt code) \<and> truthy (opt state) then code else None) of
             None \<Rightarrow> (Inl (HTTPException 400 ''Missing required parameters (code or state)''), w)
           | Some code \<Rightarrow>
               (let stored_state = get (w_session w) ''facebook_oauth_state'';
                    w = record_call (SessionGet ''facebook_oauth_state'') w
                in if \<not> truthy stored_state \<or> stored_state \<noteq> opt state
                   then (Inl (HTTPException 400 ''Invalid state parameter''), w)
                   else
                     (case facebook_callback_try cfg facebook now new_id rnd code w of
                        (Inl (HTTPStatusError t), w') \<Rightarrow>
                          (Inl (HTTPException 400 (''Facebook API error: '' @ t)), w')
                      | (Inl e, w') \<Rightarrow>
                          (Inl (HTTPException 500 (''An error occurred: '' @ str_exc e)), w')
                      | (Inr r, w') \<Rightarrow> (Inr r, w')))))"

text \<open>
  The three callback routes. A request carries the query parameters it was sent with;
  the framework hands each handler the parameters it declares, and answers 422 itself
  when the Google route is called without its required \<open>code\<close>.
\<close>

datatype provider_name = Google | LinkedIn | Facebook

record callback_query =
  q_code :: "string option"
  q_state :: "string option"
  q_error :: "string option"
  q_error_description :: "string option"

fun state_key :: "provider_name \<Rightarrow> string" where
  "state_key Google = ''google_oauth_state''"
| "state_key LinkedIn = ''linkedin_oauth_state''"
| "state_key Facebook = ''facebook_oauth_state''"

fun callback ::
  "provider_name \<Rightarrow> config \<Rightarrow> provider \<Rightarrow> int \<Rightarrow> string \<Rightarrow> int \<Rightarrow> callback_query \<Rightarrow> world
     \<Rightarrow> (exn + document) \<times> world" where
  "callback Google cfg remote now new_id rnd q w =
     (case q_code q of
        None \<Rightarrow> (Inl (HTTPException 422 ''Field required''), w)
      | Some code \<Rightarrow> auth_google_callback cfg remote now new_id rnd code (q_state q) w)"
| "callback LinkedIn cfg remote now new_id rnd q w =
     linkedin_callback cfg remote now new_id rnd
       (q_code q) (q_state q) (q_error q) (q_error_description q) w"
| "callback Facebook cfg remote now new_id rnd q w =
     facebook_callback cfg remote now new_id rnd
       (q_code q) (q_state q) (q_error q) (q_error_description q) w"

fun auth_start :: "provider_name \<Rightarrow> provider \<Rightarrow> string \<Rightarrow> world \<Rightarrow> document \<times> world" where
  "auth_start Google = auth_google"
| "auth_start LinkedIn = auth_linkedin"
| "auth_start Facebook = auth_facebook"

text \<open>
  A provider that accepts every code and answers with one profile; a session in which
  each flow has been started with the state \<open>s\<close>; a callback request as the
  provider sends it after consent, and one that carries an error as well.
\<close>

definition remote_ok :: provider where
  "remote_ok =
     \<lparr>client_id = ''cid'', redirect_uri = ''https://app.example/callback'', scope = ''email'',
      token_endpoint = (\<lambda>code.
        \<lparr>status_code = 200, response_text = ''ok'',
         json_body = Some [(''access_token'', BStr ''provider-token'')]\<rparr>),
      userinfo_endpoint = (\<lambda>token.
        \<lparr>status_code = 200, response_text = ''ok'',
         json_body = Some [(''id'', BStr ''ext-1''), (''sub'', BStr ''ext-1''),
                           (''email'', BStr ''b@x.com''),
                           (''given_name'', BStr ''B''), (''family_name'', BStr ''X''),
                           (''first_name'', BStr ''B''), (''last_name'', BStr ''X'')]\<rparr>)\<rparr>"

definition world_started :: world where
  "world_started =
     \<lparr>w_users = [],
      w_session = [(''google_oauth_state'', BStr ''s''), (''linkedin_oauth_state'', BStr ''s''),
                   (''facebook_oauth_state'', BStr ''s'')],
      w_calls = []\<rparr>"

definition query_ok :: callback_query where
  "query_ok = \<lparr>q_code = Some ''c'', q_state = Some ''s'', q_error = None,
               q_error_description = None\<rparr>"

definition query_denied :: callback_query where
  "query_denied = \<lparr>q_code = Some ''c'', q_state = Some ''s'', q_error = Some ''access_denied'',
                   q_error_description = Some ''cancelled''\<rparr>"

text \<open>The store \<open>users_one\<close> after its user has logged in through Google, and the
  request context after the Google callback has succeeded in \<open>world_started\<close>.\<close>

definition users_linked :: "document list" where
  "users_linked = [[(''_id'', BOid ''0123456789abcdef01234567''), (''email'', BStr ''a@x.com''),
                    (''password'', BStr ''old''), (''first_name'', BStr ''B''),
                    (''last_name'', BStr ''X''), (''auth_provider'', BStr ''google'')]]"

definition world_logged_in :: world where
  "world_logged_in =
     snd (callback Google test_config remote_ok 0 ''0123456789abcdef01234567'' 123456
            query_ok world_started)"

text \<open>
  Two users; the same store after the second user has set the profile email to the
  address of the first; and that store after a Google login with that address.
\<close>

definition users_ab :: "document list" where
  "users_ab =
     [[(''_id'', BOid ''0123456789abcdef01234567''), (''email'', BStr ''a@x.com''),
       (''password'', BStr ''old'')],
      [(''_id'', BOid ''0123456789abcdef01234568''), (''email'', BStr ''b@x.com''),
       (''password'', BStr ''old'')]]"

definition users_dup :: "document list" where
  "users_dup =
     [[(''_id'', BOid ''0123456789abcdef01234567''), (''email'', BStr ''a@x.com''),
       (''password'', BStr ''old'')],
      [(''_id'', BOid ''0123456789abcdef01234568''), (''email'', BStr ''a@x.com''),
       (''password'', BStr ''old'')]]"

definition users_dup_linked :: "document list" where
  "users_dup_linked =
     [[(''_id'', BOid ''0123456789abcdef01234567''), (''email'', BStr ''a@x.com''),
       (''password'', BStr ''old''), (''first_name'', BStr ''B''),
       (''last_name'', BStr ''X''), (''auth_provider'', BStr ''google'')],
      [(''_id'', BOid ''0123456789abcdef01234568''), (''email'', BStr ''a@x.com''),
       (''password'', BStr ''old'')]]"

section \<open>Properties of the token service\<close>











section \<open>Properties of the store operations\<close>

lemma matches_single: "matches [(k, v)] d = (get d k = v)"
  by (simp add: matches_def)

lemma find_one_None_iff: "find_one q coll = None \<longleftrightarrow> (\<forall>d\<in>set coll. \<not> matches q d)"
  by (auto simp: find_one_def find_None_iff)

lemma find_one_SomeD: "find_one q coll = Some u \<Longrightarrow> u \<in> set coll \<and> matches q u"
  by (auto simp: find_one_def find_Some_iff)

lemma get_update: "get (AList.update k v d) k' = (if k' = k then v else get d k')"
  by (simp add: get_def get_default_def update_conv)

lemma get_delete: "get (AList.delete k d) k' = (if k' = k then BNull else get d k')"
  by (simp add: get_def get_default_def delete_conv')

text \<open>With distinct identifiers, an update by identifier rewrites that document only.\<close>

lemma update_one_by_id:
  "distinct (map (\<lambda>d. get d ''_id'') coll) \<Longrightarrow> u \<in> set coll \<Longrightarrow>
     update_one [(''_id'', get u ''_id'')] f coll = map (\<lambda>d. if d = u then f d else d) coll"
proof (induction coll)
  case Nil
  then show ?case by simp
next
  case (Cons d ds)
  show ?case
  proof (cases "d = u")
    case True
    with Cons.prems have "u \<notin> set ds" by (auto simp: image_iff)
    then have "map (\<lambda>d. if d = u then f d else d) ds = ds"
      by (induction ds) auto
    with True show ?thesis by (simp add: matches_single)
  next
    case False
    with Cons.prems have u: "u \<in> set ds" by simp
    with Cons.prems have "get d ''_id'' \<noteq> get u ''_id''" by (auto simp: image_iff)
    with False u Cons show ?thesis by (simp add: matches_single)
  qed
qed

lemma single_match:
  "length (filter P xs) \<le> 1 \<Longrightarrow> find P xs = Some u \<Longrightarrow> \<forall>d\<in>set xs. P d \<longrightarrow> d = u"
proof (induction xs)
  case Nil
  then show ?case by simp
next
  case (Cons x xs)
  show ?case
  proof (cases "P x")
    case True
    with Cons.prems have "filter P xs = []" "u = x" by auto
    then show ?thesis by (auto simp: filter_empty_conv)
  next
    case False
    with Cons show ?thesis by auto
  qed
qed

lemma str_1234: "str_int 1234 = ''1234''"
  by (simp add: str_int_def)

lemma hash_test: "hash_password test_config ''1234'' = ''tlas_tluafed4321''"
  by (simp add: hash_password_def test_config_def)

section \<open>Login\<close>

text \<open>
  Claim C10. A login for an email with no stored user and a login for a stored email
  whose stored password differs from the hash of the one presented raise the same
  exception: status 400 with the detail \<open>Invalid email or password\<close>.
\<close>

theorem login_failures_indistinguishable:
  assumes "find_one [(''email'', BStr (login_email r1))] users1 = None"
      and "find_one [(''email'', BStr (login_email r2))] users2 = Some u"
      and "map_of u ''password'' = Some stored"
      and "stored \<noteq> BStr (hash_password cfg (login_password r2))"
  shows "login_user cfg t1 r1 users1 = login_user cfg t2 r2 users2
       \<and> login_user cfg t1 r1 users1 = Inl (HTTPException 400 ''Invalid email or password'')
       \<and> login_user cfg t2 r2 users2 = Inl (HTTPException 400 ''Invalid email or password'')
       \<and> map_sum status_of id (login_user cfg t1 r1 users1) = Inl 400
       \<and> map_sum status_of id (login_user cfg t2 r2 users2) = Inl 400"
  using assms by (auto simp: login_user_def Let_def)

theorem login_failures_indistinguishable_witness:
  "login_user test_config 0 \<lparr>login_email = ''nobody@x.com'', login_password = ''old''\<rparr> users_one
     = Inl (HTTPException 400 ''Invalid email or password'')
   \<and> login_user test_config 0 \<lparr>login_email = ''a@x.com'', login_password = ''wrong''\<rparr> users_one
     = Inl (HTTPException 400 ''Invalid email or password'')"
proof -
  have a: "find_one [(''email'', BStr (login_email
              \<lparr>login_email = ''nobody@x.com'', login_password = ''old''\<rparr>))] users_one = None"
    by (simp add: find_one_def matches_def get_def get_default_def users_one_def)
  have b: "find_one [(''email'', BStr (login_email
              \<lparr>login_email = ''a@x.com'', login_password = ''wrong''\<rparr>))] users_one
             = Some (hd users_one)"
    by (simp add: find_one_def matches_def get_def get_default_def users_one_def)
  have c: "map_of (hd users_one) ''password'' = Some (BStr ''old'')"
    by (simp add: users_one_def)
  have d: "BStr ''old'' \<noteq> BStr (hash_password test_config (login_password
              \<lparr>login_email = ''a@x.com'', login_password = ''wrong''\<rparr>))"
    by (simp add: hash_password_def test_config_def)
  show ?thesis
    using login_failures_indistinguishable [OF a b c d] by simp
qed

section \<open>Password reset\<close>

text \<open>
  Claim C3, on the code, at a concrete run. After \<open>forgot_password\<close> for a stored
  user the record holds the hash of the code and no \<open>otp_expiration\<close>;
  \<open>reset_password\<close> takes no clock reading and reads no expiry, so the reset with
  that code succeeds however much later it is made.
\<close>

theorem forgot_then_reset_ignores_time:
  "(let users1 = fst (snd (forgot_password test_config 1234 True ''a@x.com'' users_one))
    in map (\<lambda>d. get d ''temp_password'') users1 = [BStr (hash_password test_config ''1234'')]
     \<and> map (\<lambda>d. get d ''otp_expiration'') users1 = [BNull]
     \<and> fst (reset_password test_config
              \<lparr>otp = ''1234'', new_password = ''n'', confirm_password = ''n''\<rparr> users1)
         = Inr [(''message'', BStr ''Password reset successfully'')])"
  by (simp add: forgot_password_def reset_password_def generate_temp_password_def str_1234
      hash_test find_one_def matches_def get_def get_default_def users_one_def set_fields_def
      unset_fields_def Let_def)

lemma reset_password_failure_keeps_store:
  "reset_password cfg rd users = (Inl e, users') \<Longrightarrow> users' = users"
  by (auto simp: reset_password_def Let_def split: if_splits option.splits)

lemma reset_password_success:
  assumes "reset_password cfg rd users = (Inr r, users')"
  shows "new_password rd = confirm_password rd
       \<and> (\<exists>u. find_one [(''temp_password'', BStr (hash_password cfg (otp rd)))] users = Some u
              \<and> users' = update_one [(''_id'', get u ''_id'')]
                   (\<lambda>d. AList.delete ''temp_password''
                          (AList.update ''password'' (BStr (hash_password cfg (new_password rd))) d))
                   users)"
  using assms
  by (auto simp: reset_password_def Let_def set_fields_def unset_fields_def
      split: if_splits option.splits)

text \<open>
  Claim C6 as stated fails: when two users hold the same pending code, the reset with
  that code succeeds twice, once for each of them.
\<close>

theorem reset_password_replay_counterexample:
  "fst (reset_password test_config
          \<lparr>otp = ''1234'', new_password = ''n'', confirm_password = ''n''\<rparr> users_two)
     = Inr [(''message'', BStr ''Password reset successfully'')]
   \<and> fst (reset_password test_config
          \<lparr>otp = ''1234'', new_password = ''n'', confirm_password = ''n''\<rparr>
          (snd (reset_password test_config
             \<lparr>otp = ''1234'', new_password = ''n'', confirm_password = ''n''\<rparr> users_two)))
     = Inr [(''message'', BStr ''Password reset successfully'')]"
  by (simp add: reset_password_def hash_test find_one_def matches_def get_def get_default_def
      users_two_def set_fields_def unset_fields_def Let_def)

text \<open>
  Claim C6, amended. When the record identifiers are distinct and at most one record
  holds the hash of the presented code, a successful \<open>reset_password\<close> rewrites
  exactly the matched record, in one update that sets the new password hash and removes
  \<open>temp_password\<close>; afterwards no record holds that hash, and every further call
  with the same code raises and leaves the store as it is. Any call that raises leaves
  the store, and so the stored hash, unchanged.
\<close>

theorem reset_password_consumes_otp:
  assumes ok: "reset_password cfg rd users = (Inr r, users')"
      and ids: "distinct (map (\<lambda>d. get d ''_id'') users)"
      and one: "length (find_all [(''temp_password'', BStr (hash_password cfg (otp rd)))] users) \<le> 1"
  shows "(\<exists>u. find_one [(''temp_password'', BStr (hash_password cfg (otp rd)))] users = Some u
            \<and> users' = map (\<lambda>d. if d = u
                   then AList.delete ''temp_password''
                          (AList.update ''password'' (BStr (hash_password cfg (new_password rd))) d)
                   else d) users)
       \<and> find_one [(''temp_password'', BStr (hash_password cfg (otp rd)))] users' = None
       \<and> (otp rd' = otp rd \<longrightarrow> (\<exists>e. reset_password cfg rd' users' = (Inl e, users')))
       \<and> (reset_password cfg rd2 users2 = (Inl e2, users2') \<longrightarrow> users2' = users2)"
proof -
  let ?h = "BStr (hash_password cfg (otp rd))"
  let ?f = "\<lambda>d. AList.delete ''temp_password''
                 (AList.update ''password'' (BStr (hash_password cfg (new_password rd))) d)"
  from reset_password_success [OF ok] obtain u where
    u: "find_one [(''temp_password'', ?h)] users = Some u"
    and upd: "users' = update_one [(''_id'', get u ''_id'')] ?f users"
    by blast
  from u have uin: "u \<in> set users" by (simp add: find_one_SomeD)
  have users': "users' = map (\<lambda>d. if d = u then ?f d else d) users"
    unfolding upd by (rule update_one_by_id [OF ids uin])
  have only: "\<forall>d\<in>set users. matches [(''temp_password'', ?h)] d \<longrightarrow> d = u"
    using one u unfolding find_all_def find_one_def by (rule single_match)
  have nof: "\<not> matches [(''temp_password'', ?h)] (?f d)" for d
    by (simp add: matches_single get_delete)
  have none: "find_one [(''temp_password'', ?h)] users' = None"
    unfolding find_one_None_iff users' using only nof by auto
  have replay: "otp rd' = otp rd \<longrightarrow> (\<exists>e. reset_password cfg rd' users' = (Inl e, users'))"
    using none by (simp add: reset_password_def Let_def)
  have keep: "reset_password cfg rd2 users2 = (Inl e2, users2') \<longrightarrow> users2' = users2"
    using reset_password_failure_keeps_store by blast
  from u users' none replay keep show ?thesis by blast
qed

theorem reset_password_consumes_otp_witness:
  "reset_password test_config \<lparr>otp = ''1234'', new_password = ''n'', confirm_password = ''n''\<rparr>
      users_pending
     = (Inr [(''message'', BStr ''Password reset successfully'')], users_reset)
   \<and> find_one [(''temp_password'', BStr (hash_password test_config ''1234''))] users_reset = None
   \<and> (\<exists>e. reset_password test_config
            \<lparr>otp = ''1234'', new_password = ''m'', confirm_password = ''m''\<rparr> users_reset
          = (Inl e, users_reset))
   \<and> snd (reset_password test_config
            \<lparr>otp = ''1234'', new_password = ''n'', confirm_password = ''m''\<rparr> users_pending)
       = users_pending"
proof -
  let ?rd = "\<lparr>otp = ''1234'', new_password = ''n'', confirm_password = ''n''\<rparr>"
  let ?bad = "\<lparr>otp = ''1234'', new_password = ''n'', confirm_password = ''m''\<rparr>"
  have ok: "reset_password test_config ?rd users_pending
              = (Inr [(''message'', BStr ''Password reset successfully'')], users_reset)"
    by (simp add: reset_password_def hash_password_def test_config_def find_one_def matches_def
        get_def get_default_def users_pending_def users_reset_def set_fields_def
        unset_fields_def Let_def)
  have ids: "distinct (map (\<lambda>d. get d ''_id'') users_pending)"
    by (simp add: users_pending_def get_def get_default_def)
  have one: "length (find_all [(''temp_password'', BStr (hash_password test_config (otp ?rd)))]
                users_pending) \<le> 1"
    by (simp add: find_all_def matches_def get_def get_default_def users_pending_def)
  have bad: "reset_password test_config ?bad users_pending
               = (Inl (HTTPException 400 ''Passwords do not match''), users_pending)"
    by (simp add: reset_password_def)
  show ?thesis
    using reset_password_consumes_otp [OF ok ids one,
        where rd' = "\<lparr>otp = ''1234'', new_password = ''m'', confirm_password = ''m''\<rparr>"
          and ?rd2.0 = ?bad and ?users2.0 = users_pending
          and ?e2.0 = "HTTPException 400 ''Passwords do not match''"
          and ?users2'.0 = users_pending]
      ok bad
    by simp
qed

section \<open>Profile update\<close>

text \<open>
  Claim C9, on the code. A profile update with no field to change raises inside the
  \<open>try\<close> block with status 400; the \<open>except Exception\<close> clause of the handler
  catches that exception and raises status 500 in its place. The store is unchanged.
\<close>

theorem update_profile_empty_patch:
  "update_profile \<lparr>uc_email = None, uc_password = pw, uc_first_name = None,
       uc_last_name = None, uc_mobile_number = None\<rparr> cu users
     = (Inl (HTTPException 500
          ''An error occurred during profile update: 400: No update fields provided''), users)
   \<and> map_sum status_of id
        (fst (update_profile \<lparr>uc_email = None, uc_password = pw, uc_first_name = None,
           uc_last_name = None, uc_mobile_number = None\<rparr> cu users)) = Inl 500
   \<and> fst (update_profile_try \<lparr>uc_email = None, uc_password = pw, uc_first_name = None,
       uc_last_name = None, uc_mobile_number = None\<rparr> cu users)
     = Inl (HTTPException 400 ''No update fields provided'')"
  by (simp add: update_profile_def update_profile_try_def update_fields_of_def)

section \<open>Document ownership\<close>

lemma get_from_mongo_user_id: "get (from_mongo d) ''user_id'' = get d ''user_id''"
  by (simp add: from_mongo_def get_update get_delete split: option.splits)

lemma matches_pair: "matches [(k, v), (k', v')] d = (get d k = v \<and> get d k' = v')"
  by (simp add: matches_def)

lemma read_documents_owner:
  assumes "read_documents skip limit cu documents = Inr rs" and "r \<in> set rs"
  shows "get r ''user_id'' = cu_id cu"
proof -
  from assms obtain d where d: "d \<in> set (find_all [(''user_id'', cu_id cu)] documents)"
    and r: "r = from_mongo d"
    by (auto simp: read_documents_def Let_def split: if_splits
        dest!: in_set_takeD in_set_dropD)
  from d have "get d ''user_id'' = cu_id cu"
    by (simp add: find_all_def matches_single)
  with r show ?thesis by (simp add: get_from_mongo_user_id)
qed

lemma read_document_owner:
  assumes "read_document document_id cu documents = Inr r"
  shows "get r ''user_id'' = cu_id cu"
proof -
  from assms obtain d oid where "find_one [(''_id'', oid), (''user_id'', cu_id cu)] documents = Some d"
    and r: "r = from_mongo d"
    by (auto simp: read_document_def split: if_splits sum.splits option.splits)
  then have "get d ''user_id'' = cu_id cu"
    by (auto dest!: find_one_SomeD simp: matches_pair)
  with r show ?thesis by (simp add: get_from_mongo_user_id)
qed

lemma read_document_foreign:
  assumes "ObjectId (BStr document_id) = Inr oid"
      and "\<forall>d\<in>set documents. get d ''_id'' = oid \<longrightarrow> get d ''user_id'' \<noteq> cu_id cu"
  shows "read_document document_id cu documents
           = Inl (HTTPException 404 ''Document not found or unauthorized'')"
proof -
  from assms(2) have "find_one [(''_id'', oid), (''user_id'', cu_id cu)] documents = None"
    by (auto simp: find_one_None_iff matches_pair)
  with assms(1) show ?thesis by (simp add: read_document_def is_valid_def)
qed

text \<open>
  Claim C8. Every record that the listing returns, and the record that the single read
  returns, carries the requester's id as its \<open>user_id\<close>, for every requester, store
  and paging; and when all records with the requested identifier (there is one) belong
  to other owners, the single read raises status 404 with the detail
  \<open>Document not found or unauthorized\<close>.
\<close>

theorem documents_only_of_requester:
  "(\<forall>rs. read_documents skip limit cu documents = Inr rs
        \<longrightarrow> (\<forall>r\<in>set rs. get r ''user_id'' = cu_id cu))
   \<and> (\<forall>r. read_document document_id cu documents = Inr r \<longrightarrow> get r ''user_id'' = cu_id cu)
   \<and> (ObjectId (BStr document_id) = Inr oid
        \<and> (\<exists>d\<in>set documents. get d ''_id'' = oid)
        \<and> (\<forall>d\<in>set documents. get d ''_id'' = oid
              \<longrightarrow> get d ''user_id'' \<noteq> cu_id cu)
       \<longrightarrow> read_document document_id cu documents
             = Inl (HTTPException 404 ''Document not found or unauthorized''))"
  using read_documents_owner read_document_owner read_document_foreign by blast

text \<open>Whitespace between the pairs of digits is accepted, as \<open>bytes.fromhex\<close> does.\<close>

lemma is_valid_whitespace: "is_valid ''0123456789abcdef012345  ''"
  by code_simp

lemma ObjectId_b:
  "ObjectId (BStr ''bbbbbbbbbbbbbbbbbbbbbbbb'') = Inr (BOid ''bbbbbbbbbbbbbbbbbbbbbbbb'')"
  by code_simp

lemma ObjectId_A:
  "ObjectId (BStr ''AAAAAAAAAAAAAAAAAAAAAAAA'') = Inr (BOid ''aaaaaaaaaaaaaaaaaaaaaaaa'')"
  by code_simp

theorem documents_only_of_requester_witness:
  "read_documents 0 10 \<lparr>cu_id = BStr ''u1'', cu_email = BStr ''a@x.com''\<rparr> documents_two
     = Inr [[(''user_id'', BStr ''u1''), (''document_name'', BStr ''passport''),
             (''scan_type'', BStr ''id''), (''id'', BStr ''aaaaaaaaaaaaaaaaaaaaaaaa'')]]
   \<and> read_document ''AAAAAAAAAAAAAAAAAAAAAAAA''
        \<lparr>cu_id = BStr ''u1'', cu_email = BStr ''a@x.com''\<rparr> documents_two
     = Inr [(''user_id'', BStr ''u1''), (''document_name'', BStr ''passport''),
            (''scan_type'', BStr ''id''), (''id'', BStr ''aaaaaaaaaaaaaaaaaaaaaaaa'')]
   \<and> read_document ''bbbbbbbbbbbbbbbbbbbbbbbb''
        \<lparr>cu_id = BStr ''u1'', cu_email = BStr ''a@x.com''\<rparr> documents_two
     = Inl (HTTPException 404 ''Document not found or unauthorized'')"
proof -
  let ?cu = "\<lparr>cu_id = BStr ''u1'', cu_email = BStr ''a@x.com''\<rparr>"
  let ?a = "[(''user_id'', BStr ''u1''), (''document_name'', BStr ''passport''),
             (''scan_type'', BStr ''id''), (''id'', BStr ''aaaaaaaaaaaaaaaaaaaaaaaa'')]"
  have list: "read_documents 0 10 ?cu documents_two = Inr [?a]"
    by (simp add: read_documents_def find_all_def matches_def get_def get_default_def
        documents_two_def from_mongo_def Let_def)
  have one: "read_document ''AAAAAAAAAAAAAAAAAAAAAAAA'' ?cu documents_two = Inr ?a"
    unfolding read_document_def is_valid_def ObjectId_A
    by (simp add: find_one_def matches_def get_def get_default_def documents_two_def
        from_mongo_def Let_def)
  have ex: "\<exists>d\<in>set documents_two. get d ''_id'' = BOid ''bbbbbbbbbbbbbbbbbbbbbbbb''"
    by (simp add: documents_two_def get_def get_default_def)
  have other: "\<forall>d\<in>set documents_two. get d ''_id'' = BOid ''bbbbbbbbbbbbbbbbbbbbbbbb''
                 \<longrightarrow> get d ''user_id'' \<noteq> cu_id ?cu"
    by (simp add: documents_two_def get_def get_default_def)
  have foreign: "read_document ''bbbbbbbbbbbbbbbbbbbbbbbb'' ?cu documents_two
                   = Inl (HTTPException 404 ''Document not found or unauthorized'')"
    using documents_only_of_requester [where document_id = "''bbbbbbbbbbbbbbbbbbbbbbbb''"
        and documents = documents_two and cu = ?cu
        and oid = "BOid ''bbbbbbbbbbbbbbbbbbbbbbbb''"] ObjectId_b ex other
    by blast
  have "\<forall>r\<in>set [?a]. get r ''user_id'' = cu_id ?cu"
    using documents_only_of_requester [where skip = 0 and limit = 10 and cu = ?cu
        and documents = documents_two] list
    by blast
  moreover have "get ?a ''user_id'' = cu_id ?cu"
    using documents_only_of_requester [where document_id = "''AAAAAAAAAAAAAAAAAAAAAAAA''"
        and cu = ?cu and documents = documents_two] one
    by blast
  ultimately show ?thesis using list one foreign by simp
qed

section \<open>Updates of the first matching document\<close>

lemma set_fields_get:
  "map_of (set_fields kvs d) k = (case map_of (rev kvs) k of None \<Rightarrow> map_of d k | Some v \<Rightarrow> Some v)"
  unfolding set_fields_def
proof (induction kvs arbitrary: d)
  case Nil
  then show ?case by simp
next
  case (Cons kv kvs)
  show ?case
    by (simp add: Cons.IH update_conv' map_add_def split: option.splits)
qed

lemma set_fields_fixed:
  "\<forall>kv\<in>set kvs. map_of d (fst kv) = Some (snd kv) \<Longrightarrow> set_fields kvs d = d"
  unfolding set_fields_def
  by (induction kvs arbitrary: d) (auto simp: update_triv)

lemma set_fields_idem:
  assumes "distinct (map fst kvs)"
  shows "set_fields kvs (set_fields kvs d) = set_fields kvs d"
proof (rule set_fields_fixed, rule ballI)
  fix kv assume kv: "kv \<in> set kvs"
  from assms have "distinct (map fst (rev kvs))" by (simp add: rev_map [symmetric])
  moreover from kv have "(fst kv, snd kv) \<in> set (rev kvs)" by simp
  ultimately have "map_of (rev kvs) (fst kv) = Some (snd kv)" by (rule map_of_is_SomeI)
  then show "map_of (set_fields kvs d) (fst kv) = Some (snd kv)"
    by (simp add: set_fields_get)
qed

lemma get_set_fields_other:
  "k \<notin> fst ` set kvs \<Longrightarrow> get (set_fields kvs d) k = get d k"
proof -
  assume "k \<notin> fst ` set kvs"
  then have "map_of (rev kvs) k = None" by (simp add: map_of_eq_None_iff)
  then show ?thesis by (simp add: get_def get_default_def set_fields_get)
qed

lemma update_one_first:
  "find_one q coll = Some u \<Longrightarrow>
     \<exists>pre post. coll = pre @ u # post \<and> (\<forall>d\<in>set pre. \<not> matches q d)
        \<and> update_one q f coll = pre @ f u # post"
proof (induction coll)
  case Nil
  then show ?case by (simp add: find_one_def)
next
  case (Cons d ds)
  show ?case
  proof (cases "matches q d")
    case True
    with Cons.prems have "u = d" by (simp add: find_one_def)
    with True have "d # ds = [] @ u # ds \<and> (\<forall>x\<in>set []. \<not> matches q x)
        \<and> update_one q f (d # ds) = [] @ f u # ds" by simp
    then show ?thesis by blast
  next
    case False
    with Cons.prems have "find_one q ds = Some u" by (simp add: find_one_def)
    from Cons.IH [OF this] obtain pre post where
      "ds = pre @ u # post" "\<forall>d\<in>set pre. \<not> matches q d" "update_one q f ds = pre @ f u # post"
      by blast
    with False have "d # ds = (d # pre) @ u # post \<and> (\<forall>x\<in>set (d # pre). \<not> matches q x)
        \<and> update_one q f (d # ds) = (d # pre) @ f u # post" by simp
    then show ?thesis by blast
  qed
qed

lemma find_one_first:
  "(\<forall>d\<in>set pre. \<not> matches q d) \<Longrightarrow> matches q u \<Longrightarrow> find_one q (pre @ u # post) = Some u"
  by (induction pre) (auto simp: find_one_def)

lemma update_one_at_first:
  "(\<forall>d\<in>set pre. \<not> matches q d) \<Longrightarrow> matches q u \<Longrightarrow>
     update_one q f (pre @ u # post) = pre @ f u # post"
  by (induction pre) auto

section \<open>The find-or-create step\<close>

lemma inserted_fixed:
  assumes keys: "distinct (map fst (names @ linkage))"
      and nk: "''_id'' \<notin> fst ` set (names @ linkage)" "''email'' \<notin> fst ` set (names @ linkage)"
              "''password'' \<notin> fst ` set (names @ linkage)"
  shows "set_fields (names @ linkage)
           ((''_id'', i) # (''email'', e) # names @ (''password'', h) # linkage)
         = (''_id'', i) # (''email'', e) # names @ (''password'', h) # linkage"
proof (rule set_fields_fixed, rule ballI)
  fix kv assume kv: "kv \<in> set (names @ linkage)"
  then have k: "fst kv \<noteq> ''_id''" "fst kv \<noteq> ''email''" "fst kv \<noteq> ''password''"
    using nk by (metis image_eqI)+
  have "map_of (names @ (''password'', h) # linkage) (fst kv) = Some (snd kv)"
  proof (cases "kv \<in> set names")
    case True
    from keys have "distinct (map fst names)" by simp
    with True have "map_of names (fst kv) = Some (snd kv)"
      by (metis map_of_is_SomeI prod.collapse)
    then show ?thesis by (simp add: map_add_def)
  next
    case False
    with kv have l: "kv \<in> set linkage" by simp
    with keys have "fst kv \<notin> fst ` set names" by (auto simp: image_iff)
    then have n: "map_of names (fst kv) = None" by (simp add: map_of_eq_None_iff)
    from keys have "distinct (map fst linkage)" by simp
    with l have "map_of linkage (fst kv) = Some (snd kv)"
      by (metis map_of_is_SomeI prod.collapse)
    with n k show ?thesis by (simp add: map_add_def)
  qed
  with k show "map_of ((''_id'', i) # (''email'', e) # names @ (''password'', h) # linkage) (fst kv)
                 = Some (snd kv)"
    by simp
qed

lemma upsert_twice:
  assumes keys: "distinct (map fst (names @ linkage))"
      and nk: "''_id'' \<notin> fst ` set (names @ linkage)" "''email'' \<notin> fst ` set (names @ linkage)"
              "''password'' \<notin> fst ` set (names @ linkage)"
      and first: "upsert cfg n1 r1 email names linkage users = (id1, users1)"
      and second: "upsert cfg n2 r2 email names linkage users1 = (id2, users2)"
  shows "id2 = id1 \<and> users2 = users1
       \<and> length (find_all [(''email'', email)] users1)
           = max 1 (length (find_all [(''email'', email)] users))
       \<and> (\<forall>u. find_one [(''email'', email)] users = Some u \<longrightarrow>
             (\<exists>pre post. users = pre @ u # post
                \<and> users1 = pre @ set_fields (names @ linkage) u # post))"
proof (cases "find_one [(''email'', email)] users")
  case None
  let ?q = "[(''email'', email)]"
  let ?d = "(''_id'', BOid n1) # (''email'', email) # names
              @ (''password'', BStr (hash_password cfg (str_int r1))) # linkage"
  from None first have id1: "id1 = BStr n1" and users1: "users1 = users @ [?d]"
    by (auto simp: upsert_def insert_one_def Let_def)
  from None have nomatch: "\<forall>d\<in>set users. \<not> matches ?q d" by (simp add: find_one_None_iff)
  have md: "matches ?q ?d" by (simp add: matches_single get_def get_default_def)
  from nomatch md have f1: "find_one ?q users1 = Some ?d"
    unfolding users1 by (rule find_one_first)
  have fixed: "set_fields (names @ linkage) ?d = ?d"
    using keys nk by (rule inserted_fixed)
  from nomatch md have "update_one ?q (set_fields (names @ linkage)) users1
                          = users @ set_fields (names @ linkage) ?d # []"
    unfolding users1 by (rule update_one_at_first)
  with fixed have upd: "update_one ?q (set_fields (names @ linkage)) users1 = users1"
    by (simp add: users1)
  from second f1 upd have "id2 = py_str (get ?d ''_id'')" "users2 = users1"
    by (auto simp: upsert_def)
  then have r: "id2 = id1" "users2 = users1"
    by (simp_all add: id1 get_def get_default_def)
  from nomatch have "filter (matches ?q) users = []" by (simp add: filter_empty_conv)
  with md have cnt: "length (find_all ?q users1) = max 1 (length (find_all ?q users))"
    by (simp add: find_all_def users1)
  from r cnt None show ?thesis by simp
next
  case (Some u)
  let ?q = "[(''email'', email)]"
  let ?f = "set_fields (names @ linkage)"
  from update_one_first [OF Some, of ?f] obtain pre post where
    users: "users = pre @ u # post" and pre: "\<forall>d\<in>set pre. \<not> matches ?q d"
    and upd: "update_one ?q ?f users = pre @ ?f u # post"
    by blast
  from Some first upd have id1: "id1 = py_str (get u ''_id'')" and users1: "users1 = pre @ ?f u # post"
    by (auto simp: upsert_def)
  from Some have mu: "matches ?q u" by (simp add: find_one_SomeD)
  have other: "get (?f u) k = get u k" if "k \<notin> fst ` set (names @ linkage)" for k
    using that by (rule get_set_fields_other)
  from mu nk(2) have mfu: "matches ?q (?f u)" by (simp add: matches_single other)
  from pre mfu have f1: "find_one ?q users1 = Some (?f u)"
    unfolding users1 by (rule find_one_first)
  from pre mfu have "update_one ?q ?f users1 = pre @ ?f (?f u) # post"
    unfolding users1 by (rule update_one_at_first)
  with keys have upd2: "update_one ?q ?f users1 = users1"
    by (simp add: set_fields_idem users1)
  from second f1 upd2 have "id2 = py_str (get (?f u) ''_id'')" "users2 = users1"
    by (auto simp: upsert_def)
  with nk(1) have r: "id2 = id1" "users2 = users1"
    by (simp_all add: id1 other)
  from mu mfu have cnt: "length (find_all ?q users1) = max 1 (length (find_all ?q users))"
    by (simp add: find_all_def users users1)
  from r cnt Some users users1 show ?thesis by auto
qed

lemma get_set_fields_in:
  assumes "distinct (map fst kvs)" and "kv \<in> set kvs"
  shows "get (set_fields kvs d) (fst kv) = snd kv"
proof -
  from assms(1) have "distinct (map fst (rev kvs))" by (simp add: rev_map [symmetric])
  moreover from assms(2) have "(fst kv, snd kv) \<in> set (rev kvs)" by simp
  ultimately have "map_of (rev kvs) (fst kv) = Some (snd kv)" by (rule map_of_is_SomeI)
  then show ?thesis by (simp add: get_def get_default_def set_fields_get)
qed

lemma upsert_new:
  "find_one [(''email'', email)] users = None \<Longrightarrow>
     upsert cfg n r email names linkage users =
       (BStr n, users @ [(''_id'', BOid n) # (''email'', email) # names
                           @ (''password'', BStr (hash_password cfg (str_int r))) # linkage])"
  by (simp add: upsert_def insert_one_def)

lemma upsert_existing:
  "find_one [(''email'', email)] users = Some u \<Longrightarrow>
     upsert cfg n r email names linkage users =
       (py_str (get u ''_id''),
        update_one [(''email'', email)] (set_fields (names @ linkage)) users)"
  by (simp add: upsert_def)

lemma ObjectId_68:
  "ObjectId (BStr ''0123456789abcdef01234568'') = Inr (BOid ''0123456789abcdef01234568'')"
  by code_simp

text \<open>
  Claim C7 as stated fails: the store can hold two records with one email (the profile
  update writes an email without looking for it in the store), and the step run twice on
  a profile with that email then leaves two records for it, not one.
\<close>

theorem reconcile_duplicate_counterexample:
  "snd (update_profile
          \<lparr>uc_email = Some ''a@x.com'', uc_password = None, uc_first_name = None,
           uc_last_name = None, uc_mobile_number = None\<rparr>
          \<lparr>cu_id = BStr ''0123456789abcdef01234568'', cu_email = BStr ''b@x.com''\<rparr> users_ab)
     = users_dup
   \<and> upsert test_config ''0123456789abcdef01234569'' 123456 (BStr ''a@x.com'')
        [(''first_name'', BStr ''B''), (''last_name'', BStr ''X'')]
        [(''auth_provider'', BStr ''google'')] users_dup
     = (BStr ''0123456789abcdef01234567'', users_dup_linked)
   \<and> upsert test_config ''0123456789abcdef0123456a'' 654321 (BStr ''a@x.com'')
        [(''first_name'', BStr ''B''), (''last_name'', BStr ''X'')]
        [(''auth_provider'', BStr ''google'')] users_dup_linked
     = (BStr ''0123456789abcdef01234567'', users_dup_linked)
   \<and> length (find_all [(''email'', BStr ''a@x.com'')] users_dup_linked) = 2"
proof -
  have "snd (update_profile
          \<lparr>uc_email = Some ''a@x.com'', uc_password = None, uc_first_name = None,
           uc_last_name = None, uc_mobile_number = None\<rparr>
          \<lparr>cu_id = BStr ''0123456789abcdef01234568'', cu_email = BStr ''b@x.com''\<rparr> users_ab)
     = users_dup"
    by (simp del: ObjectId.simps
        add: update_profile_def update_profile_try_def update_fields_of_def ObjectId_68
          modified_count_def find_one_def matches_def get_def get_default_def set_fields_def
          users_ab_def users_dup_def Let_def)
  moreover have "upsert test_config ''0123456789abcdef01234569'' 123456 (BStr ''a@x.com'')
        [(''first_name'', BStr ''B''), (''last_name'', BStr ''X'')]
        [(''auth_provider'', BStr ''google'')] users_dup
     = (BStr ''0123456789abcdef01234567'', users_dup_linked)"
    by (simp add: upsert_def find_one_def matches_def get_def get_default_def set_fields_def
        users_dup_def users_dup_linked_def)
  moreover have "upsert test_config ''0123456789abcdef0123456a'' 654321 (BStr ''a@x.com'')
        [(''first_name'', BStr ''B''), (''last_name'', BStr ''X'')]
        [(''auth_provider'', BStr ''google'')] users_dup_linked
     = (BStr ''0123456789abcdef01234567'', users_dup_linked)"
    by (simp add: upsert_def find_one_def matches_def get_def get_default_def set_fields_def
        users_dup_linked_def)
  moreover have "length (find_all [(''email'', BStr ''a@x.com'')] users_dup_linked) = 2"
    by (simp add: find_all_def matches_def get_def get_default_def users_dup_linked_def)
  ultimately show ?thesis by (intro conjI)
qed

text \<open>
  Claim C7, amended. The find-or-create step, with the field lists of the Google, the
  LinkedIn or the Facebook callback, run twice on one profile: the second run returns
  the user id of the first and leaves the store as the first left it. The number of
  records with that email is the number before, or one when there was none: exactly one
  when the store held at most one record with that email before. When no record with
  that email existed, the first run appends one record with the profile's fields and a
  fresh password hash. When one existed, the first run returns the id of the first such
  record \<open>u\<close> and replaces \<open>u\<close>, and nothing else, by \<open>u\<close> with the name and
  provider fields set to the profile's values: its \<open>password\<close> and every field
  outside those lists are as before.
\<close>

theorem reconcile_idempotent:
  assumes names: "names = [(''first_name'', fn), (''last_name'', ln)]"
      and linkage: "linkage = [(''auth_provider'', BStr ''google'')]
                  \<or> linkage = [(''linkedin_id'', xid), (''auth_provider'', BStr ''linkedin'')]
                  \<or> linkage = [(''facebook_id'', xid), (''profile_picture'', pic),
                                (''auth_provider'', BStr ''facebook'')]"
      and first: "upsert cfg n1 r1 email names linkage users = (id1, users1)"
      and second: "upsert cfg n2 r2 email names linkage users1 = (id2, users2)"
  shows "id2 = id1 \<and> users2 = users1
       \<and> length (find_all [(''email'', email)] users2)
           = max 1 (length (find_all [(''email'', email)] users))
       \<and> (length (find_all [(''email'', email)] users) \<le> 1
            \<longrightarrow> length (find_all [(''email'', email)] users2) = 1)
       \<and> (find_one [(''email'', email)] users = None \<longrightarrow>
             id1 = BStr n1
             \<and> users1 = users @ [(''_id'', BOid n1) # (''email'', email) # names
                   @ (''password'', BStr (hash_password cfg (str_int r1))) # linkage])
       \<and> (\<forall>u. find_one [(''email'', email)] users = Some u \<longrightarrow>
             id1 = py_str (get u ''_id'')
             \<and> (\<exists>pre post. users = pre @ u # post
                   \<and> (\<forall>d\<in>set pre. \<not> matches [(''email'', email)] d)
                   \<and> users1 = pre @ set_fields (names @ linkage) u # post)
             \<and> (\<forall>kv\<in>set (names @ linkage).
                   get (set_fields (names @ linkage) u) (fst kv) = snd kv)
             \<and> get (set_fields (names @ linkage) u) ''password'' = get u ''password''
             \<and> (\<forall>k. k \<notin> fst ` set (names @ linkage)
                     \<longrightarrow> get (set_fields (names @ linkage) u) k = get u k))"
proof -
  let ?q = "[(''email'', email)]"
  let ?f = "set_fields (names @ linkage)"
  from names linkage have keys: "distinct (map fst (names @ linkage))" by auto
  from names linkage have nk: "''_id'' \<notin> fst ` set (names @ linkage)"
    "''email'' \<notin> fst ` set (names @ linkage)" "''password'' \<notin> fst ` set (names @ linkage)"
    by auto
  note tw = upsert_twice [OF keys nk first second]
  from tw have a: "id2 = id1" and b: "users2 = users1"
    and c: "length (find_all ?q users1) = max 1 (length (find_all ?q users))"
    by blast+
  have new: "id1 = BStr n1
       \<and> users1 = users @ [(''_id'', BOid n1) # (''email'', email) # names
             @ (''password'', BStr (hash_password cfg (str_int r1))) # linkage]"
    if "find_one ?q users = None"
    using upsert_new [OF that, of cfg n1 r1 names linkage] first by simp
  have old: "id1 = py_str (get u ''_id'')
       \<and> (\<exists>pre post. users = pre @ u # post \<and> (\<forall>d\<in>set pre. \<not> matches ?q d)
             \<and> users1 = pre @ ?f u # post)
       \<and> (\<forall>kv\<in>set (names @ linkage). get (?f u) (fst kv) = snd kv)
       \<and> get (?f u) ''password'' = get u ''password''
       \<and> (\<forall>k. k \<notin> fst ` set (names @ linkage) \<longrightarrow> get (?f u) k = get u k)"
    if u: "find_one ?q users = Some u" for u
  proof -
    from upsert_existing [OF u, of cfg n1 r1 names linkage] first
    have id1: "id1 = py_str (get u ''_id'')" and upd: "users1 = update_one ?q ?f users"
      by simp_all
    from update_one_first [OF u, of ?f] upd
    have dec: "\<exists>pre post. users = pre @ u # post \<and> (\<forall>d\<in>set pre. \<not> matches ?q d)
                 \<and> users1 = pre @ ?f u # post"
      by simp
    have set: "\<forall>kv\<in>set (names @ linkage). get (?f u) (fst kv) = snd kv"
      using keys by (blast intro: get_set_fields_in)
    have pw: "get (?f u) ''password'' = get u ''password''"
      using nk(3) by (rule get_set_fields_other)
    have rest: "\<forall>k. k \<notin> fst ` set (names @ linkage) \<longrightarrow> get (?f u) k = get u k"
      by (blast intro: get_set_fields_other)
    from id1 dec set pw rest show ?thesis by blast
  qed
  from a b c new old show ?thesis by auto
qed

theorem reconcile_idempotent_witness:
  "upsert test_config ''0123456789abcdef01234568'' 123456 (BStr ''a@x.com'')
      [(''first_name'', BStr ''B''), (''last_name'', BStr ''X'')]
      [(''auth_provider'', BStr ''google'')] users_one
     = (BStr ''0123456789abcdef01234567'', users_linked)
   \<and> upsert test_config ''0123456789abcdef01234569'' 654321 (BStr ''a@x.com'')
      [(''first_name'', BStr ''B''), (''last_name'', BStr ''X'')]
      [(''auth_provider'', BStr ''google'')] users_linked
     = (BStr ''0123456789abcdef01234567'', users_linked)
   \<and> length (find_all [(''email'', BStr ''a@x.com'')] users_linked) = 1
   \<and> BStr ''0123456789abcdef01234567'' = py_str (get (hd users_one) ''_id'')
   \<and> get (set_fields ([(''first_name'', BStr ''B''), (''last_name'', BStr ''X'')]
                        @ [(''auth_provider'', BStr ''google'')]) (hd users_one)) ''password''
       = get (hd users_one) ''password''
   \<and> fst (upsert test_config ''0123456789abcdef01234568'' 123456 (BStr ''c@x.com'')
      [(''first_name'', BStr ''C''), (''last_name'', BStr ''Y'')]
      [(''auth_provider'', BStr ''google'')] users_one)
     = BStr ''0123456789abcdef01234568''"
proof -
  let ?names = "[(''first_name'', BStr ''B''), (''last_name'', BStr ''X'')]"
  let ?google = "[(''auth_provider'', BStr ''google'')]"
  have first: "upsert test_config ''0123456789abcdef01234568'' 123456 (BStr ''a@x.com'')
      ?names ?google users_one = (BStr ''0123456789abcdef01234567'', users_linked)"
    by (simp add: upsert_def find_one_def matches_def get_def get_default_def set_fields_def
        users_one_def users_linked_def)
  have second: "upsert test_config ''0123456789abcdef01234569'' 654321 (BStr ''a@x.com'')
      ?names ?google users_linked = (BStr ''0123456789abcdef01234567'', users_linked)"
    by (simp add: upsert_def find_one_def matches_def get_def get_default_def set_fields_def
        users_linked_def)
  have unique: "length (find_all [(''email'', BStr ''a@x.com'')] users_one) \<le> 1"
    by (simp add: users_one_def find_all_def)
  have found: "find_one [(''email'', BStr ''a@x.com'')] users_one = Some (hd users_one)"
    by (simp add: find_one_def matches_def get_def get_default_def users_one_def)
  note inst = reconcile_idempotent [OF refl disjI1 [OF refl] first second]
  note one = inst [THEN conjunct2, THEN conjunct2, THEN conjunct2, THEN conjunct1,
      rule_format, OF unique]
  note kept = inst [THEN conjunct2, THEN conjunct2, THEN conjunct2, THEN conjunct2,
      THEN conjunct2, THEN spec, THEN mp, OF found]
  note idu = kept [THEN conjunct1]
  note pw = kept [THEN conjunct2, THEN conjunct2, THEN conjunct2, THEN conjunct1]
  let ?names2 = "[(''first_name'', BStr ''C''), (''last_name'', BStr ''Y'')]"
  obtain i1 us1 where new1: "upsert test_config ''0123456789abcdef01234568'' 123456
      (BStr ''c@x.com'') ?names2 ?google users_one = (i1, us1)"
    by (cases "upsert test_config ''0123456789abcdef01234568'' 123456
      (BStr ''c@x.com'') ?names2 ?google users_one") blast
  obtain i2 us2 where new2: "upsert test_config ''0123456789abcdef01234569'' 654321
      (BStr ''c@x.com'') ?names2 ?google us1 = (i2, us2)"
    by (cases "upsert test_config ''0123456789abcdef01234569'' 654321
      (BStr ''c@x.com'') ?names2 ?google us1") blast
  have absent: "find_one [(''email'', BStr ''c@x.com'')] users_one = None"
    by (simp add: find_one_def matches_def get_def get_default_def users_one_def)
  note inst2 = reconcile_idempotent [OF refl disjI1 [OF refl] new1 new2]
  note fresh = inst2 [THEN conjunct2, THEN conjunct2, THEN conjunct2, THEN conjunct2,
      THEN conjunct1, THEN mp, OF absent, THEN conjunct1]
  have new: "fst (upsert test_config ''0123456789abcdef01234568'' 123456 (BStr ''c@x.com'')
      ?names2 ?google users_one) = BStr ''0123456789abcdef01234568''"
    using new1 fresh by simp
  show ?thesis by (intro conjI first second one idu pw new)
qed

section \<open>The callbacks\<close>

text \<open>The definitions unfolded when a callback is evaluated on the concrete settings.\<close>

lemmas eval_defs = auth_google_callback_def auth_google_callback_try_def
  linkedin_callback_def linkedin_callback_try_def facebook_callback_def facebook_callback_try_def
  record_call_def raise_for_status_def upsert_def insert_one_def find_one_def matches_def
  get_def get_default_def set_fields_def generate_access_token_def jwt_encode_def
  remote_ok_def world_started_def query_ok_def query_denied_def test_config_def Let_def
  hash_password_def str_int_def verify_access_token_def validate_claims_def validate_iat_def
  validate_nbf_def validate_exp_def validate_aud_def

lemma google_try_calls:
  "\<exists>rest. w_calls (snd (auth_google_callback_try cfg g now nid rnd code w))
            = w_calls w @ TokenEndpoint code # rest"
  by (simp add: auth_google_callback_try_def record_call_def Let_def
      split: option.splits prod.splits)

lemma linkedin_try_calls:
  "\<exists>rest. w_calls (snd (linkedin_callback_try cfg g now nid rnd code w))
            = w_calls w @ TokenEndpoint code # rest"
  by (simp add: linkedin_callback_try_def record_call_def Let_def
      split: option.splits prod.splits)

lemma facebook_try_calls:
  "\<exists>rest. w_calls (snd (facebook_callback_try cfg g now nid rnd code w))
            = w_calls w @ TokenEndpoint code # rest"
  by (simp add: facebook_callback_try_def record_call_def Let_def
      split: option.splits prod.splits sum.splits)

lemma google_try_session:
  "auth_google_callback_try cfg g now nid rnd code w = (Inr r, w') \<Longrightarrow>
     \<exists>u. w_session w' = AList.update ''user'' u (w_session w)"
  by (auto simp: auth_google_callback_try_def record_call_def Let_def
      split: option.splits prod.splits if_splits)

lemma linkedin_try_session:
  "linkedin_callback_try cfg g now nid rnd code w = (Inr r, w') \<Longrightarrow>
     \<exists>u. w_session w' = AList.update ''user'' u (w_session w)"
  by (auto simp: linkedin_callback_try_def record_call_def Let_def
      split: option.splits prod.splits if_splits)

lemma facebook_try_session:
  "facebook_callback_try cfg g now nid rnd code w = (Inr r, w') \<Longrightarrow>
     \<exists>u. w_session w' = AList.update ''user'' u (w_session w)"
  by (auto simp: facebook_callback_try_def record_call_def Let_def
      split: option.splits prod.splits if_splits sum.splits)

lemma truthy_opt: "truthy (opt x) \<longleftrightarrow> (\<exists>s. x = Some s \<and> s \<noteq> [])"
  by (cases x) auto

lemma callback_success:
  assumes "callback p cfg remote now nid rnd q w = (Inr r, w')"
  shows "truthy (get (w_session w) (state_key p))
       \<and> get (w_session w) (state_key p) = opt (q_state q)
       \<and> (\<exists>u. w_session w' = AList.update ''user'' u (w_session w))
       \<and> (p \<noteq> Google \<longrightarrow> \<not> truthy (opt (q_error q)))"
proof (cases p)
  case Google
  with assms show ?thesis
    by (auto simp: auth_google_callback_def record_call_def Let_def
        split: option.splits if_splits prod.splits sum.splits
        dest!: google_try_session)
next
  case LinkedIn
  with assms show ?thesis
    by (auto simp: linkedin_callback_def record_call_def Let_def
        split: option.splits if_splits prod.splits sum.splits exn.splits
        dest!: linkedin_try_session)
next
  case Facebook
  with assms show ?thesis
    by (auto simp: facebook_callback_def record_call_def Let_def
        split: option.splits if_splits prod.splits sum.splits exn.splits
        dest!: facebook_try_session)
qed

lemma callback_passes_state:
  assumes "truthy (get (w_session w) (state_key p))"
      and "get (w_session w) (state_key p) = opt (q_state q)"
      and "q_code q = Some code" and "code \<noteq> []"
      and "p \<noteq> Google \<longrightarrow> \<not> truthy (opt (q_error q))"
  shows "\<exists>rest. w_calls (snd (callback p cfg remote now nid rnd q w))
            = w_calls w @ SessionGet (state_key p) # TokenEndpoint code # rest"
proof (cases p)
  case Google
  obtain rest where "w_calls (snd (auth_google_callback_try cfg remote now nid rnd code
        (record_call (SessionGet ''google_oauth_state'') w)))
      = w_calls (record_call (SessionGet ''google_oauth_state'') w) @ TokenEndpoint code # rest"
    using google_try_calls by blast
  with Google assms show ?thesis
    by (auto simp: auth_google_callback_def record_call_def Let_def
        split: prod.splits sum.splits)
next
  case LinkedIn
  obtain rest where "w_calls (snd (linkedin_callback_try cfg remote now nid rnd code
        (record_call (SessionGet ''linkedin_oauth_state'') w)))
      = w_calls (record_call (SessionGet ''linkedin_oauth_state'') w) @ TokenEndpoint code # rest"
    using linkedin_try_calls by blast
  with LinkedIn assms show ?thesis
    by (auto simp: linkedin_callback_def record_call_def Let_def
        split: prod.splits sum.splits exn.splits)
next
  case Facebook
  obtain rest where "w_calls (snd (facebook_callback_try cfg remote now nid rnd code
        (record_call (SessionGet ''facebook_oauth_state'') w)))
      = w_calls (record_call (SessionGet ''facebook_oauth_state'') w) @ TokenEndpoint code # rest"
    using facebook_try_calls by blast
  with Facebook assms show ?thesis
    by (auto simp: facebook_callback_def record_call_def Let_def
        split: prod.splits sum.splits exn.splits)
qed

lemma logout_clears_state: "get (w_session (snd (logout w))) (state_key p) = BNull"
  by (cases p) (simp_all add: logout_def get_delete)

lemma callback_rejects_missing_state:
  assumes "get (w_session w) (state_key p) = BNull"
      and "q_code q = Some code" and "code \<noteq> []" and "truthy (opt (q_state q))"
      and "p \<noteq> Google \<longrightarrow> \<not> truthy (opt (q_error q))"
  shows "callback p cfg remote now nid rnd q w
           = (Inl (HTTPException 400 ''Invalid state parameter''),
              record_call (SessionGet (state_key p)) w)"
  using assms
  by (cases p) (auto simp: auth_google_callback_def linkedin_callback_def
      facebook_callback_def Let_def)

lemma provider_denied:
  assumes "p \<noteq> Google" and "q_error q = Some err" and "err \<noteq> []"
  shows "\<exists>msg. callback p cfg remote now nid rnd q w = (Inl (HTTPException 400 msg), w)"
  using assms
  by (cases p) (auto simp: linkedin_callback_def facebook_callback_def Let_def
      split: option.splits)

lemma get_Cons: "get ((k, v) # d) k' = (if k' = k then v else get d k')"
  by (simp add: get_def get_default_def)

lemma get_Nil: "get [] k = BNull"
  by (simp add: get_def get_default_def)

lemma google_callback_token:
  assumes "auth_google_callback cfg g now nid rnd code st w = (Inr r, w')"
  shows "\<exists>u. get r ''user'' = BDoc u
           \<and> get r ''access_token''
               = generate_access_token cfg now
                   [(''sub'', get u ''id''), (''email'', get u ''email'')] None
           \<and> upsert cfg nid rnd (get u ''email'')
                 [(''first_name'', get u ''first_name''), (''last_name'', get u ''last_name'')]
                 [(''auth_provider'', BStr ''google'')] (w_users w)
               = (get u ''id'', w_users w')"
  using assms
  by (auto simp: auth_google_callback_def auth_google_callback_try_def record_call_def Let_def
      get_Cons get_Nil
      split: option.splits if_splits prod.splits sum.splits)

lemma linkedin_callback_token:
  assumes "linkedin_callback cfg g now nid rnd code st err descr w = (Inr r, w')"
  shows "\<exists>u. get r ''user'' = BDoc u
           \<and> get r ''access_token''
               = generate_access_token cfg now
                   [(''sub'', get u ''id''), (''email'', get u ''email'')] None
           \<and> (\<exists>xid. upsert cfg nid rnd (get u ''email'')
                 [(''first_name'', get u ''first_name''), (''last_name'', get u ''last_name'')]
                 [(''linkedin_id'', xid), (''auth_provider'', BStr ''linkedin'')] (w_users w)
               = (get u ''id'', w_users w'))"
  using assms
  by (auto simp: linkedin_callback_def linkedin_callback_try_def record_call_def Let_def
      get_Cons get_Nil
      split: option.splits if_splits prod.splits sum.splits exn.splits)

lemma facebook_callback_token:
  assumes "facebook_callback cfg g now nid rnd code st err descr w = (Inr r, w')"
  shows "\<exists>c body. code = Some c \<and> json_body (token_endpoint g c) = Some body
           \<and> map_of body ''access_token'' = Some (get r ''access_token'')"
  using assms
  by (auto simp: facebook_callback_def facebook_callback_try_def record_call_def Let_def
      get_Cons get_Nil
      split: option.splits if_splits prod.splits sum.splits exn.splits)

text \<open>
  Claim C1, on the code. The Google and the LinkedIn callback answer with a token that
  \<open>generate_access_token\<close> issued for the reconciled user id (the two lemmas
  above); the Facebook callback answers with the \<open>access_token\<close> of the provider's
  token response (the lemma above). At the concrete run below the field is the
  provider's token, which does not verify as a token of this application.
\<close>

theorem facebook_callback_returns_provider_token:
  "fst (callback Facebook test_config remote_ok 0 ''0123456789abcdef01234567'' 123456
          query_ok world_started)
     = Inr [(''access_token'', BStr ''provider-token''),
            (''user'', BDoc [(''id'', BStr ''0123456789abcdef01234567''),
                             (''first_name'', BStr ''B''), (''last_name'', BStr ''X''),
                             (''email'', BStr ''b@x.com''), (''profile_picture'', BStr '''')])]
   \<and> json_body (token_endpoint remote_ok ''c'') = Some [(''access_token'', BStr ''provider-token'')]
   \<and> verify_access_token test_config 0 (BStr ''provider-token'') = Inl (ValueError ''Invalid token'')"
  by (simp add: eval_defs)

text \<open>
  Claim C2, on the code. The LinkedIn and the Facebook callback raise on a non-empty
  \<open>error\<close> parameter before anything else (lemma \<open>provider_denied\<close>: the
  request context is unchanged). The Google callback declares no such parameter: its
  outcome does not depend on \<open>error\<close>, and at the concrete run below a request that
  carries an error is answered as a successful login, after the state lookup and the
  calls to the token and user-info endpoints.
\<close>

theorem google_callback_ignores_error:
  "callback Google cfg remote now new_id rnd (q\<lparr>q_error := e, q_error_description := d\<rparr>) w
     = callback Google cfg remote now new_id rnd q w
   \<and> \<not> isl (fst (callback Google test_config remote_ok 0 ''0123456789abcdef01234567'' 123456
               query_denied world_started))
   \<and> w_calls (snd (callback Google test_config remote_ok 0 ''0123456789abcdef01234567'' 123456
               query_denied world_started))
     = [SessionGet ''google_oauth_state'', TokenEndpoint ''c'',
        UserInfoEndpoint (BStr ''provider-token'')]"
proof -
  have "callback Google cfg remote now new_id rnd (q\<lparr>q_error := e, q_error_description := d\<rparr>) w
          = callback Google cfg remote now new_id rnd q w"
    by (cases "q_code q") simp_all
  moreover have "\<not> isl (fst (callback Google test_config remote_ok 0 ''0123456789abcdef01234567''
                    123456 query_denied world_started))"
    by (simp add: eval_defs)
  moreover have "w_calls (snd (callback Google test_config remote_ok 0
                    ''0123456789abcdef01234567'' 123456 query_denied world_started))
     = [SessionGet ''google_oauth_state'', TokenEndpoint ''c'',
        UserInfoEndpoint (BStr ''provider-token'')]"
    by (simp add: eval_defs)
  ultimately show ?thesis by blast
qed

text \<open>
  Claim C4 as stated fails: for each provider, after a callback has succeeded, a second
  callback in the same session with the same state (and another code) succeeds as well.
\<close>

theorem state_replay_counterexample:
  "\<not> isl (fst (callback Google test_config remote_ok 0 ''0123456789abcdef01234567'' 123456
               query_ok world_started))
   \<and> \<not> isl (fst (callback Google test_config remote_ok 5 ''0123456789abcdef01234568'' 654321
               (query_ok\<lparr>q_code := Some ''c2''\<rparr>)
               (snd (callback Google test_config remote_ok 0 ''0123456789abcdef01234567'' 123456
                  query_ok world_started))))
   \<and> \<not> isl (fst (callback LinkedIn test_config remote_ok 0 ''0123456789abcdef01234567'' 123456
               query_ok world_started))
   \<and> \<not> isl (fst (callback LinkedIn test_config remote_ok 5 ''0123456789abcdef01234568'' 654321
               (query_ok\<lparr>q_code := Some ''c2''\<rparr>)
               (snd (callback LinkedIn test_config remote_ok 0 ''0123456789abcdef01234567'' 123456
                  query_ok world_started))))
   \<and> \<not> isl (fst (callback Facebook test_config remote_ok 0 ''0123456789abcdef01234567'' 123456
               query_ok world_started))
   \<and> \<not> isl (fst (callback Facebook test_config remote_ok 5 ''0123456789abcdef01234568'' 654321
               (query_ok\<lparr>q_code := Some ''c2''\<rparr>)
               (snd (callback Facebook test_config remote_ok 0 ''0123456789abcdef01234567'' 123456
                  query_ok world_started))))"
  by (simp add: eval_defs)

lemma google_try_keeps:
  "k \<noteq> ''user'' \<Longrightarrow>
     get (w_session (snd (auth_google_callback_try cfg g now nid rnd code w))) k
       = get (w_session w) k"
  by (simp add: auth_google_callback_try_def record_call_def Let_def get_update
      split: option.splits prod.splits)

lemma linkedin_try_keeps:
  "k \<noteq> ''user'' \<Longrightarrow>
     get (w_session (snd (linkedin_callback_try cfg g now nid rnd code w))) k
       = get (w_session w) k"
  by (simp add: linkedin_callback_try_def record_call_def Let_def get_update
      split: option.splits prod.splits)

lemma facebook_try_keeps:
  "k \<noteq> ''user'' \<Longrightarrow>
     get (w_session (snd (facebook_callback_try cfg g now nid rnd code w))) k
       = get (w_session w) k"
  by (simp add: facebook_callback_try_def record_call_def Let_def get_update
      split: option.splits prod.splits sum.splits)

lemma snd_wrap2:
  "snd (case x of (Inl e, w') \<Rightarrow> (f e, w') | (Inr r, w') \<Rightarrow> (g r, w')) = snd x"
  by (cases x) (auto split: sum.splits)

lemma snd_wrap3:
  "snd (case x of (Inl (HTTPException c d), w') \<Rightarrow> (f1 c d, w')
          | (Inl (HTTPStatusError t), w') \<Rightarrow> (f2 t, w')
          | (Inl (PyError m), w') \<Rightarrow> (f3 m, w')
          | (Inr r, w') \<Rightarrow> (g r, w')) = snd x"
  by (cases x) (auto split: sum.splits exn.splits)

lemma callback_keeps_state:
  "get (w_session (snd (callback p' cfg remote now nid rnd q w))) (state_key p)
     = get (w_session w) (state_key p)"
proof -
  have k: "state_key p \<noteq> ''user''" by (cases p) simp_all
  show ?thesis
  proof (cases p')
    case Google
    then show ?thesis
      by (simp add: auth_google_callback_def Let_def snd_wrap2 google_try_keeps [OF k]
          record_call_def split: option.splits)
  next
    case LinkedIn
    then show ?thesis
      by (simp add: linkedin_callback_def Let_def snd_wrap3 linkedin_try_keeps [OF k]
          record_call_def split: option.splits)
  next
    case Facebook
    then show ?thesis
      by (simp add: facebook_callback_def Let_def snd_wrap3 facebook_try_keeps [OF k]
          record_call_def split: option.splits)
  qed
qed

lemma google_try_errors:
  "auth_google_callback_try cfg g now nid rnd code w = (Inl e, w') \<Longrightarrow>
     e = PyError ''JSONDecodeError'' \<or> e = HTTPException 400 ''Failed to retrieve access token''
     \<or> e = HTTPException 400 ''Failed to retrieve user email''"
  by (auto simp: auth_google_callback_try_def Let_def split: option.splits if_splits prod.splits)

lemma callback_not_state_rejected:
  assumes "truthy (get (w_session w) (state_key p))"
      and "get (w_session w) (state_key p) = opt (q_state q)"
      and "q_code q = Some code" and "code \<noteq> []"
      and "p \<noteq> Google \<longrightarrow> \<not> truthy (opt (q_error q))"
  shows "fst (callback p cfg remote now nid rnd q w)
           \<noteq> Inl (HTTPException 400 ''Invalid state parameter'')"
proof (cases p)
  case Google
  show ?thesis
  proof (cases "auth_google_callback_try cfg remote now nid rnd code
                  (record_call (SessionGet ''google_oauth_state'') w)")
    case (Pair res w')
    show ?thesis
    proof (cases res)
      case (Inl e)
      with Pair google_try_errors have "e = PyError ''JSONDecodeError''
          \<or> e = HTTPException 400 ''Failed to retrieve access token''
          \<or> e = HTTPException 400 ''Failed to retrieve user email''" by blast
      then have "str_exc e \<noteq> ''Invalid state parameter''" by auto
      with Google assms Pair Inl show ?thesis
        by (simp add: auth_google_callback_def Let_def record_call_def)
    next
      case (Inr r)
      with Google assms Pair show ?thesis
        by (simp add: auth_google_callback_def Let_def record_call_def)
    qed
  qed
next
  case LinkedIn
  show ?thesis
  proof (cases "linkedin_callback_try cfg remote now nid rnd code
                  (record_call (SessionGet ''linkedin_oauth_state'') w)")
    case (Pair res w')
    with LinkedIn assms show ?thesis
      by (auto simp: linkedin_callback_def Let_def record_call_def
          split: sum.splits exn.splits)
  qed
next
  case Facebook
  show ?thesis
  proof (cases "facebook_callback_try cfg remote now nid rnd code
                  (record_call (SessionGet ''facebook_oauth_state'') w)")
    case (Pair res w')
    with Facebook assms show ?thesis
      by (auto simp: facebook_callback_def Let_def record_call_def
          split: sum.splits exn.splits)
  qed
qed

text \<open>
  Claim C4, amended. The start route of a provider stores the state in the session, and
  no callback, whatever its outcome, changes a stored state. A callback that succeeds
  was presented the state stored for its provider, and that state is still in the
  session afterwards: a further callback in that session presenting the same state is
  not rejected by the state check, and goes on to the code exchange.
\<close>

theorem state_not_consumed:
  assumes ok: "callback p cfg remote now new_id rnd q w = (Inr r, w')"
  shows "get (w_session (snd (auth_start p remote0 s0 w0))) (state_key p) = BStr s0
       \<and> get (w_session (snd (callback p3 cfg3 remote3 now3 new_id3 rnd3 q3 w3))) (state_key p)
           = get (w_session w3) (state_key p)
       \<and> truthy (opt (q_state q))
       \<and> get (w_session w) (state_key p) = opt (q_state q)
       \<and> get (w_session w') (state_key p) = opt (q_state q)
       \<and> (code2 \<noteq> [] \<longrightarrow>
            fst (callback p cfg2 remote2 now2 new_id2 rnd2 (q\<lparr>q_code := Some code2\<rparr>) w')
              \<noteq> Inl (HTTPException 400 ''Invalid state parameter'')
            \<and> (\<exists>rest. w_calls (snd (callback p cfg2 remote2 now2 new_id2 rnd2
                                   (q\<lparr>q_code := Some code2\<rparr>) w'))
                      = w_calls w' @ SessionGet (state_key p) # TokenEndpoint code2 # rest))"
proof -
  from callback_success [OF ok] have
    t: "truthy (get (w_session w) (state_key p))"
    and s: "get (w_session w) (state_key p) = opt (q_state q)"
    and e: "p \<noteq> Google \<longrightarrow> \<not> truthy (opt (q_error q))"
    by blast+
  have "get (w_session (snd (callback p cfg remote now new_id rnd q w))) (state_key p)
          = get (w_session w) (state_key p)"
    by (rule callback_keeps_state)
  with ok s have s': "get (w_session w') (state_key p) = opt (q_state q)" by simp
  let ?q2 = "q\<lparr>q_code := Some code2\<rparr>"
  have pass: "fst (callback p cfg2 remote2 now2 new_id2 rnd2 ?q2 w')
                \<noteq> Inl (HTTPException 400 ''Invalid state parameter'')"
    if "code2 \<noteq> []"
    using t s s' that e
    by (intro callback_not_state_rejected [where code = code2]) simp_all
  have again: "\<exists>rest. w_calls (snd (callback p cfg2 remote2 now2 new_id2 rnd2 ?q2 w'))
                  = w_calls w' @ SessionGet (state_key p) # TokenEndpoint code2 # rest"
    if "code2 \<noteq> []"
    using t s s' that e
    by (intro callback_passes_state) simp_all
  have start: "get (w_session (snd (auth_start p remote0 s0 w0))) (state_key p) = BStr s0"
    by (cases p) (simp_all add: auth_google_def auth_linkedin_def auth_facebook_def get_update)
  have keeps: "get (w_session (snd (callback p3 cfg3 remote3 now3 new_id3 rnd3 q3 w3)))
                 (state_key p) = get (w_session w3) (state_key p)"
    by (rule callback_keeps_state)
  from start keeps t s s' pass again show ?thesis by simp
qed

theorem state_not_consumed_witness:
  "get (w_session (snd (auth_start Google remote_ok ''s'' world_started))) ''google_oauth_state''
     = BStr ''s''
   \<and> get (w_session world_started) ''google_oauth_state'' = BStr ''s''
   \<and> get (w_session world_logged_in) ''google_oauth_state'' = BStr ''s''
   \<and> fst (callback Google test_config remote_ok 5 ''0123456789abcdef01234568'' 654321
            (query_ok\<lparr>q_code := Some ''c2''\<rparr>) world_logged_in)
       \<noteq> Inl (HTTPException 400 ''Invalid state parameter'')
   \<and> (\<exists>rest. w_calls (snd (callback Google test_config remote_ok 5 ''0123456789abcdef01234568''
                    654321 (query_ok\<lparr>q_code := Some ''c2''\<rparr>) world_logged_in))
         = w_calls world_logged_in
             @ SessionGet ''google_oauth_state'' # TokenEndpoint ''c2'' # rest)"
proof -
  have ok: "callback Google test_config remote_ok 0 ''0123456789abcdef01234567'' 123456
              query_ok world_started
            = (Inr (projr (fst (callback Google test_config remote_ok 0
                  ''0123456789abcdef01234567'' 123456 query_ok world_started))),
               world_logged_in)"
    by (simp add: world_logged_in_def eval_defs)
  have ne: "''c2'' \<noteq> []" by simp
  show ?thesis
    using state_not_consumed [OF ok, where ?code2.0 = "''c2''" and ?cfg2.0 = test_config
        and ?remote2.0 = remote_ok and ?now2.0 = 5 and ?new_id2.0 = "''0123456789abcdef01234568''"
        and ?rnd2.0 = 654321 and ?remote0.0 = remote_ok and ?s0.0 = "''s''"
        and ?w0.0 = world_started] ne
    by (simp add: query_ok_def)
qed

text \<open>The stored states are removed by \<open>logout\<close>: a callback after it is rejected.\<close>

lemma callback_after_logout:
  assumes "q_code q = Some code" and "code \<noteq> []" and "truthy (opt (q_state q))"
      and "p \<noteq> Google \<longrightarrow> \<not> truthy (opt (q_error q))"
  shows "callback p cfg remote now nid rnd q (snd (logout w))
           = (Inl (HTTPException 400 ''Invalid state parameter''),
              record_call (SessionGet (state_key p)) (snd (logout w)))"
  using assms by (intro callback_rejects_missing_state logout_clears_state) simp_all

section \<open>The expiry of the one-time code\<close>

text \<open>
  The \<open>forgot_password\<close> route never writes \<open>otp_expiration\<close>. The helper pair
  of auth_utils.py does: a code generated by \<open>generate_otp\<close> is refused by
  \<open>verify_otp\<close> once more than 15 minutes have passed.
\<close>

lemma map_update_one:
  "(\<And>d. g (f d) = g d) \<Longrightarrow> map g (update_one q f coll) = map g coll"
  by (induction coll) auto

lemma forgot_password_writes_no_expiry:
  "forgot_password cfg r delivered email users = (res, users', mail) \<Longrightarrow>
     map (\<lambda>d. get d ''otp_expiration'') users' = map (\<lambda>d. get d ''otp_expiration'') users"
  by (auto simp: forgot_password_def Let_def set_fields_def get_update
      split: option.splits if_splits intro!: map_update_one)

lemma verify_otp_expired:
  assumes "find_one [(''email'', BStr email)] users = Some u" and "now + 900 < t"
  shows "\<not> verify_otp cfg t email code (snd (generate_otp cfg now r email users))"
proof -
  let ?q = "[(''email'', BStr email)]"
  let ?f = "set_fields [(''temp_password'', BStr (hash_password cfg (generate_temp_password r))),
                        (''otp_expiration'', BInt (now + 900))]"
  from update_one_first [OF assms(1), of ?f] obtain pre post where
    pre: "\<forall>d\<in>set pre. \<not> matches ?q d"
    and upd: "update_one ?q ?f users = pre @ ?f u # post"
    by blast
  from assms(1) have "matches ?q u" by (simp add: find_one_SomeD)
  then have "matches ?q (?f u)"
    by (simp add: matches_single set_fields_def get_update)
  with pre have "find_one ?q (pre @ ?f u # post) = Some (?f u)" by (rule find_one_first)
  moreover have "get (?f u) ''otp_expiration'' = BInt (now + 900)"
    by (simp add: set_fields_def get_update)
  ultimately show ?thesis
    using assms(2) by (simp add: verify_otp_def generate_otp_def Let_def upd)
qed

end
